theory Spec2Isabelle
  imports Complex_Main "HOL-Library.AList"
begin

section \<open>Values, plain objects and keyed collections\<close>

text \<open>
  The editor is written in JavaScript. Its numbers are modelled by the reals, the
  idealisation of IEEE doubles: rounding, infinities and \<^verbatim>\<open>NaN\<close> are not modelled. The model
  and the code agree where the arithmetic of doubles is exact, as it is on the small
  integers of the examples below; a statement over all states that rests on a sum being
  exact is made for safe integers only. A plain object used as a
  dictionary is modelled by a finite map from keys to values, and the insertion-ordered \<^verbatim>\<open>Map\<close> of the diagram by an association list with the
  operations of \<^verbatim>\<open>Map\<close>: \<^verbatim>\<open>set\<close> overwrites in place or appends, \<^verbatim>\<open>delete\<close> removes the key,
  \<^verbatim>\<open>values()\<close> lists in insertion order.
\<close>

datatype jsval = JUndefined | JNull | JBool bool | JNum real | JStr string

type_synonym jsobject = "string \<rightharpoonup> jsval"

datatype error = Error string | TypeError string

definition Map_get :: "('k \<times> 'v) list \<Rightarrow> 'k \<Rightarrow> 'v option" where
  "Map_get m k = map_of m k"

definition Map_set :: "'k \<Rightarrow> 'v \<Rightarrow> ('k \<times> 'v) list \<Rightarrow> ('k \<times> 'v) list" where
  "Map_set k v m = AList.update k v m"

definition Map_delete :: "'k \<Rightarrow> ('k \<times> 'v) list \<Rightarrow> ('k \<times> 'v) list" where
  "Map_delete k m = AList.delete k m"

definition Map_values :: "('k \<times> 'v) list \<Rightarrow> 'v list" where
  "Map_values m = map snd m"

text \<open>\<^verbatim>\<open>a || d\<close> on a possibly missing number or string: 0 and the empty string are falsy.\<close>

definition or_num :: "real option \<Rightarrow> real \<Rightarrow> real" where
  "or_num a d = (case a of None \<Rightarrow> d | Some v \<Rightarrow> if v = 0 then d else v)"

definition or_str :: "string option \<Rightarrow> string \<Rightarrow> string" where
  "or_str a d = (case a of None \<Rightarrow> d | Some v \<Rightarrow> if v = [] then d else v)"

text \<open>Truthiness of a possibly null string, as in \<^verbatim>\<open>if (connection.source.shapeId)\<close>.\<close>

definition truthy :: "string option \<Rightarrow> bool" where
  "truthy a = (case a of None \<Rightarrow> False | Some v \<Rightarrow> v \<noteq> [])"

section \<open>Geometry (src/utils/geometry.js)\<close>

datatype point = Point (p_x: real) (p_y: real)

definition distanceTo :: "point \<Rightarrow> point \<Rightarrow> real" where
  "distanceTo this other =
     (let dx = p_x this - p_x other; dy = p_y this - p_y other
      in sqrt (dx * dx + dy * dy))"

datatype rectangle = Rectangle (r_x: real) (r_y: real) (r_width: real) (r_height: real)

definition rect_left :: "rectangle \<Rightarrow> real" where "rect_left r = r_x r"
definition rect_right :: "rectangle \<Rightarrow> real" where "rect_right r = r_x r + r_width r"
definition rect_top :: "rectangle \<Rightarrow> real" where "rect_top r = r_y r"
definition rect_bottom :: "rectangle \<Rightarrow> real" where "rect_bottom r = r_y r + r_height r"
definition centerX :: "rectangle \<Rightarrow> real" where "centerX r = r_x r + r_width r / 2"
definition centerY :: "rectangle \<Rightarrow> real" where "centerY r = r_y r + r_height r / 2"
definition center :: "rectangle \<Rightarrow> point" where "center r = Point (centerX r) (centerY r)"

definition getConnectionPoint :: "rectangle \<Rightarrow> string \<Rightarrow> point" where
  "getConnectionPoint r side =
     (if side = ''top'' then Point (centerX r) (rect_top r)
      else if side = ''right'' then Point (rect_right r) (centerY r)
      else if side = ''bottom'' then Point (centerX r) (rect_bottom r)
      else if side = ''left'' then Point (rect_left r) (centerY r)
      else if side = ''center'' then center r
      else center r)"

text \<open>
  The loop of \<^verbatim>\<open>getNearestConnectionPoint\<close> over \<^verbatim>\<open>Object.entries(points)\<close>: the state is
  the pair \<^verbatim>\<open>(nearest, minDist)\<close>, with \<open>None\<close> for the initial \<^verbatim>\<open>Infinity\<close>.
\<close>

fun nearest_loop :: "point \<Rightarrow> (string \<times> point) list \<Rightarrow> string \<times> real option \<Rightarrow> string \<times> real option" where
  "nearest_loop pt [] acc = acc"
| "nearest_loop pt ((side, p) # rest) (nearest, minDist) =
     (let dist = distanceTo pt p
      in if (case minDist of None \<Rightarrow> True | Some m \<Rightarrow> dist < m)
         then nearest_loop pt rest (side, Some dist)
         else nearest_loop pt rest (nearest, minDist))"

definition rect_getNearestConnectionPoint :: "rectangle \<Rightarrow> point \<Rightarrow> string \<times> point option" where
  "rect_getNearestConnectionPoint r pt =
     (let points = [(''top'', getConnectionPoint r ''top''),
                    (''right'', getConnectionPoint r ''right''),
                    (''bottom'', getConnectionPoint r ''bottom''),
                    (''left'', getConnectionPoint r ''left'')];
          nearest = fst (nearest_loop pt points (''top'', None))
      in (nearest, map_of points nearest))"

section \<open>Shapes (src/shapes/Shape.js)\<close>

text \<open>
  A shape object. The DOM element and the flags \<^verbatim>\<open>selected\<close>, \<^verbatim>\<open>hovered\<close>, \<^verbatim>\<open>editing\<close>
  are rendering state and are left out; \<^verbatim>\<open>updateElement\<close>, \<^verbatim>\<open>remove\<close> and the event bus
  touch only them.
\<close>

record shape =
  s_id :: string
  s_type :: string
  s_diagramType :: string
  s_x :: real
  s_y :: real
  s_width :: real
  s_height :: real
  s_properties :: jsobject
  s_style :: jsobject
  s_minWidth :: real
  s_minHeight :: real
  s_resizable :: bool

text \<open>
  The options object of the constructor, which is also what \<^verbatim>\<open>toJSON\<close> produces and
  \<^verbatim>\<open>fromJSON\<close> consumes: every field may be missing.
\<close>

record shape_data =
  sd_id :: "string option"
  sd_type :: "string option"
  sd_diagramType :: "string option"
  sd_x :: "real option"
  sd_y :: "real option"
  sd_width :: "real option"
  sd_height :: "real option"
  sd_name :: "string option"
  sd_stereotype :: "string option"
  sd_properties :: "jsobject option"
  sd_style :: "jsobject option"
  sd_minWidth :: "real option"
  sd_minHeight :: "real option"
  sd_resizable :: "bool option"

definition spread :: "jsobject option \<Rightarrow> jsobject" where
  "spread ob = (case ob of None \<Rightarrow> Map.empty | Some m \<Rightarrow> m)"

text \<open>\<^verbatim>\<open>new Shape(options)\<close>; \<open>fresh\<close> stands for the result of \<^verbatim>\<open>generateId('shape')\<close>.\<close>

definition new_Shape :: "string \<Rightarrow> shape_data \<Rightarrow> shape" where
  "new_Shape fresh options =
     \<lparr> s_id = or_str (sd_id options) fresh,
       s_type = or_str (sd_type options) ''rectangle'',
       s_diagramType = or_str (sd_diagramType options) ''generic'',
       s_x = or_num (sd_x options) 0,
       s_y = or_num (sd_y options) 0,
       s_width = or_num (sd_width options) 120,
       s_height = or_num (sd_height options) 60,
       s_properties =
         [''name'' \<mapsto> JStr (or_str (sd_name options) ''''),
          ''stereotype'' \<mapsto> JStr (or_str (sd_stereotype options) '''')]
         ++ spread (sd_properties options),
       s_style =
         [''fill'' \<mapsto> JStr ''#FFFFFF'', ''stroke'' \<mapsto> JStr ''#333333'',
          ''strokeWidth'' \<mapsto> JNum 1.5]
         ++ spread (sd_style options),
       s_minWidth = or_num (sd_minWidth options) 40,
       s_minHeight = or_num (sd_minHeight options) 30,
       s_resizable = (sd_resizable options \<noteq> Some False) \<rparr>"

definition getBounds :: "shape \<Rightarrow> rectangle" where
  "getBounds s = Rectangle (s_x s) (s_y s) (s_width s) (s_height s)"

definition setPosition :: "real \<Rightarrow> real \<Rightarrow> shape \<Rightarrow> shape" where
  "setPosition x y s = s\<lparr>s_x := x, s_y := y\<rparr>"

definition setSize :: "real \<Rightarrow> real \<Rightarrow> shape \<Rightarrow> shape" where
  "setSize width height s =
     s\<lparr>s_width := max width (s_minWidth s), s_height := max height (s_minHeight s)\<rparr>"

text \<open>
  \<^verbatim>\<open>move\<close> adds the deltas to the coordinates. The code adds doubles: the sum is the one
  written here when it is exact, as it is on safe integers.
\<close>

definition move :: "real \<Rightarrow> real \<Rightarrow> shape \<Rightarrow> shape" where
  "move dx dy s = s\<lparr>s_x := s_x s + dx, s_y := s_y s + dy\<rparr>"

definition shape_setProperty :: "string \<Rightarrow> jsval \<Rightarrow> shape \<Rightarrow> shape" where
  "shape_setProperty key v s = s\<lparr>s_properties := (s_properties s)(key \<mapsto> v)\<rparr>"

definition setStyle :: "jsobject \<Rightarrow> shape \<Rightarrow> shape" where
  "setStyle style s = s\<lparr>s_style := s_style s ++ style\<rparr>"

definition getConnectionPoints :: "shape \<Rightarrow> string \<rightharpoonup> point" where
  "getConnectionPoints s =
     (let bounds = getBounds s
      in [''top'' \<mapsto> getConnectionPoint bounds ''top'',
          ''right'' \<mapsto> getConnectionPoint bounds ''right'',
          ''bottom'' \<mapsto> getConnectionPoint bounds ''bottom'',
          ''left'' \<mapsto> getConnectionPoint bounds ''left'',
          ''center'' \<mapsto> center bounds])"

definition getNearestConnectionPoint :: "shape \<Rightarrow> point \<Rightarrow> string \<times> point option" where
  "getNearestConnectionPoint s pt = rect_getNearestConnectionPoint (getBounds s) pt"

definition shape_toJSON :: "shape \<Rightarrow> shape_data" where
  "shape_toJSON s =
     \<lparr> sd_id = Some (s_id s), sd_type = Some (s_type s),
       sd_diagramType = Some (s_diagramType s),
       sd_x = Some (s_x s), sd_y = Some (s_y s),
       sd_width = Some (s_width s), sd_height = Some (s_height s),
       sd_name = None, sd_stereotype = None,
       sd_properties = Some (s_properties s), sd_style = Some (s_style s),
       sd_minWidth = None, sd_minHeight = None, sd_resizable = None \<rparr>"

definition shape_fromJSON :: "string \<Rightarrow> shape_data \<Rightarrow> shape" where
  "shape_fromJSON fresh data = new_Shape fresh data"

section \<open>Connections (src/shapes/Connection.js)\<close>

record endpoint =
  shapeId :: "string option"
  anchor :: string

text \<open>
  A connection object. \<open>c_sourceShape\<close> and \<open>c_targetShape\<close> are references to shape
  objects (\<open>None\<close> for \<^verbatim>\<open>null\<close> and \<^verbatim>\<open>undefined\<close>, which the code never tells apart).
\<close>

record connection =
  c_id :: string
  c_type :: string
  c_diagramType :: string
  c_source :: endpoint
  c_target :: endpoint
  c_waypoints :: "point list"
  c_properties :: jsobject
  c_style :: jsobject
  c_sourceShape :: "nat option"
  c_targetShape :: "nat option"

text \<open>
  The options object of the constructor and the object \<^verbatim>\<open>toJSON\<close> produces. The
  constructor reads \<^verbatim>\<open>sourceId\<close>, \<^verbatim>\<open>sourceAnchor\<close>, \<^verbatim>\<open>targetId\<close>, \<^verbatim>\<open>targetAnchor\<close>;
  \<^verbatim>\<open>toJSON\<close> writes \<^verbatim>\<open>source\<close> and \<^verbatim>\<open>target\<close>.
\<close>

record conn_data =
  cd_id :: "string option"
  cd_type :: "string option"
  cd_diagramType :: "string option"
  cd_sourceId :: "string option"
  cd_sourceAnchor :: "string option"
  cd_targetId :: "string option"
  cd_targetAnchor :: "string option"
  cd_waypoints :: "point list option"
  cd_label :: "string option"
  cd_properties :: "jsobject option"
  cd_style :: "jsobject option"
  cd_source :: "endpoint option"
  cd_target :: "endpoint option"

text \<open>\<^verbatim>\<open>options.sourceId || null\<close>: a missing or empty id gives \<^verbatim>\<open>null\<close>.\<close>

definition or_null :: "string option \<Rightarrow> string option" where
  "or_null a = (if truthy a then a else None)"

definition new_Connection :: "string \<Rightarrow> conn_data \<Rightarrow> connection" where
  "new_Connection fresh options =
     \<lparr> c_id = or_str (cd_id options) fresh,
       c_type = or_str (cd_type options) ''association'',
       c_diagramType = or_str (cd_diagramType options) ''generic'',
       c_source = \<lparr> shapeId = or_null (cd_sourceId options),
                    anchor = or_str (cd_sourceAnchor options) ''auto'' \<rparr>,
       c_target = \<lparr> shapeId = or_null (cd_targetId options),
                    anchor = or_str (cd_targetAnchor options) ''auto'' \<rparr>,
       c_waypoints = (case cd_waypoints options of None \<Rightarrow> [] | Some w \<Rightarrow> w),
       c_properties =
         [''label'' \<mapsto> JStr (or_str (cd_label options) [])] ++ spread (cd_properties options),
       c_style =
         [''stroke'' \<mapsto> JStr ''#333333'', ''strokeWidth'' \<mapsto> JNum 1.5,
          ''lineStyle'' \<mapsto> JStr ''solid'', ''sourceArrow'' \<mapsto> JStr ''none'',
          ''targetArrow'' \<mapsto> JStr ''filled'']
         ++ spread (cd_style options),
       c_sourceShape = None,
       c_targetShape = None \<rparr>"

definition conn_setProperty :: "string \<Rightarrow> jsval \<Rightarrow> connection \<Rightarrow> connection" where
  "conn_setProperty key v c = c\<lparr>c_properties := (c_properties c)(key \<mapsto> v)\<rparr>"

definition conn_toJSON :: "connection \<Rightarrow> conn_data" where
  "conn_toJSON c =
     \<lparr> cd_id = Some (c_id c), cd_type = Some (c_type c),
       cd_diagramType = Some (c_diagramType c),
       cd_sourceId = None, cd_sourceAnchor = None,
       cd_targetId = None, cd_targetAnchor = None,
       cd_waypoints = Some (map (\<lambda>p. Point (p_x p) (p_y p)) (c_waypoints c)),
       cd_label = None,
       cd_properties = Some (c_properties c), cd_style = Some (c_style c),
       cd_source = Some (c_source c), cd_target = Some (c_target c) \<rparr>"

definition conn_fromJSON :: "string \<Rightarrow> conn_data \<Rightarrow> connection" where
  "conn_fromJSON fresh data =
     (let conn = new_Connection fresh data
      in conn\<lparr>c_waypoints :=
           map (\<lambda>p. Point (p_x p) (p_y p))
             (case cd_waypoints data of None \<Rightarrow> [] | Some w \<Rightarrow> w)\<rparr>)"

section \<open>Command objects (src/commands/Commands.js, src/core/CommandManager.js)\<close>

record bounds =
  b_x :: real
  b_y :: real
  b_width :: real
  b_height :: real

datatype element = ShapeElement nat | ConnectionElement nat

text \<open>
  One constructor per command class, carrying the fields the class stores: the object
  references it was built with and its captured values. \<open>Command\<close> is the base class, whose
  methods throw. \<open>RemoveShapeCommand\<close> carries \<^verbatim>\<open>relatedConnections\<close>, which
  \<^verbatim>\<open>execute\<close> overwrites; therefore executing a command returns the command as well.
  The children of a \<open>CompositeCommand\<close> are held by value: a composite owns its children.
\<close>

datatype command =
    Command
  | AddShapeCommand nat
  | RemoveShapeCommand nat "nat list"
  | MoveShapesCommand "nat list" real real
  | ResizeShapeCommand nat bounds bounds
  | AddConnectionCommand nat
  | RemoveConnectionCommand nat
  | UpdatePropertyCommand element string jsval jsval
  | UpdateStyleCommand element jsobject jsobject
  | CompositeCommand "command list"

section \<open>The diagram and the object store (src/model/Diagram.js)\<close>

record viewport =
  v_x :: real
  v_y :: real
  v_zoom :: real

record diagram =
  d_id :: string
  d_type :: string
  d_name :: string
  d_created :: string
  d_modified :: string
  d_shapes :: "(string \<times> nat) list"
  d_connections :: "(string \<times> nat) list"
  d_viewport :: viewport
  d_metadata :: jsobject

text \<open>
  Shapes, connections and commands are mutable objects shared between the diagram, the
  commands, the history, the selection and the controller. The store maps each reference to
  the object it denotes; the diagram's two collections hold references. \<open>st_now\<close> is the reading of the
  wall clock that the diagram writes into \<^verbatim>\<open>modified\<close>, and \<open>st_next\<close> the next unused
  reference. The editor has one diagram, which every command refers to.
\<close>

record store =
  st_shapes :: "nat \<Rightarrow> shape"
  st_conns :: "nat \<Rightarrow> connection"
  st_commands :: "nat \<Rightarrow> command"
  st_diagram :: diagram
  st_now :: string
  st_next :: nat

definition addShape :: "nat \<Rightarrow> store \<Rightarrow> store" where
  "addShape r st =
     (let d = st_diagram st;
          shape = (st_shapes st r)\<lparr>s_diagramType := d_type d\<rparr>
      in st\<lparr> st_shapes := (st_shapes st)(r := shape),
             st_diagram := d\<lparr> d_shapes := Map_set (s_id shape) r (d_shapes d),
                               d_modified := st_now st \<rparr> \<rparr>)"

definition removeShape :: "string \<Rightarrow> store \<Rightarrow> nat option \<times> store" where
  "removeShape sid st =
     (let d = st_diagram st
      in case Map_get (d_shapes d) sid of
           None \<Rightarrow> (None, st)
         | Some r \<Rightarrow>
             (Some r, st\<lparr> st_diagram := d\<lparr> d_shapes := Map_delete sid (d_shapes d),
                                            d_modified := st_now st \<rparr> \<rparr>))"

definition getShape :: "store \<Rightarrow> string \<Rightarrow> nat option" where
  "getShape st sid = Map_get (d_shapes (st_diagram st)) sid"

definition getShapes :: "store \<Rightarrow> nat list" where
  "getShapes st = Map_values (d_shapes (st_diagram st))"

text \<open>
  \<^verbatim>\<open>addConnection\<close> resolves each endpoint whose id is truthy by a lookup in the shape
  collection (a miss stores \<^verbatim>\<open>undefined\<close>) and stores the connection in every case.
\<close>

definition resolve :: "diagram \<Rightarrow> string option \<Rightarrow> nat option" where
  "resolve d sid = (case sid of None \<Rightarrow> None | Some k \<Rightarrow> Map_get (d_shapes d) k)"

definition addConnection :: "nat \<Rightarrow> store \<Rightarrow> store" where
  "addConnection r st =
     (let d = st_diagram st;
          c0 = (st_conns st r)\<lparr>c_diagramType := d_type d\<rparr>;
          c1 = (if truthy (shapeId (c_source c0))
                then c0\<lparr>c_sourceShape := resolve d (shapeId (c_source c0))\<rparr>
                else c0);
          c2 = (if truthy (shapeId (c_target c1))
                then c1\<lparr>c_targetShape := resolve d (shapeId (c_target c1))\<rparr>
                else c1)
      in st\<lparr> st_conns := (st_conns st)(r := c2),
             st_diagram := d\<lparr> d_connections := Map_set (c_id c2) r (d_connections d),
                               d_modified := st_now st \<rparr> \<rparr>)"

definition removeConnection :: "string \<Rightarrow> store \<Rightarrow> nat option \<times> store" where
  "removeConnection cid st =
     (let d = st_diagram st
      in case Map_get (d_connections d) cid of
           None \<Rightarrow> (None, st)
         | Some r \<Rightarrow>
             (Some r, st\<lparr> st_diagram := d\<lparr> d_connections := Map_delete cid (d_connections d),
                                            d_modified := st_now st \<rparr> \<rparr>))"

definition getConnection :: "store \<Rightarrow> string \<Rightarrow> nat option" where
  "getConnection st cid = Map_get (d_connections (st_diagram st)) cid"

definition getConnections :: "store \<Rightarrow> nat list" where
  "getConnections st = Map_values (d_connections (st_diagram st))"

definition getConnectionsForShape :: "store \<Rightarrow> string \<Rightarrow> nat list" where
  "getConnectionsForShape st sid =
     filter (\<lambda>r. shapeId (c_source (st_conns st r)) = Some sid
                \<or> shapeId (c_target (st_conns st r)) = Some sid)
       (getConnections st)"

section \<open>Serialization (src/model/Diagram.js)\<close>

record viewport_data =
  vd_x :: "real option"
  vd_y :: "real option"
  vd_zoom :: "real option"

text \<open>The options object of \<^verbatim>\<open>new Diagram\<close>, and the object \<^verbatim>\<open>toJSON\<close> produces.\<close>

record diagram_data =
  dd_id :: "string option"
  dd_type :: "string option"
  dd_name :: "string option"
  dd_created :: "string option"
  dd_modified :: "string option"
  dd_viewport :: "viewport_data option"
  dd_metadata :: "jsobject option"
  dd_shapes :: "shape_data list option"
  dd_connections :: "conn_data list option"

text \<open>
  \<^verbatim>\<open>new Diagram(options)\<close>; \<open>fresh\<close> stands for \<^verbatim>\<open>generateId('diagram')\<close> and \<open>now\<close> for
  \<^verbatim>\<open>new Date().toISOString()\<close>.
\<close>

definition new_Diagram :: "string \<Rightarrow> string \<Rightarrow> diagram_data \<Rightarrow> diagram" where
  "new_Diagram fresh now options =
     \<lparr> d_id = or_str (dd_id options) fresh,
       d_type = or_str (dd_type options) ''sequence'',
       d_name = or_str (dd_name options) ''Untitled Diagram'',
       d_created = or_str (dd_created options) now,
       d_modified = or_str (dd_modified options) now,
       d_shapes = [],
       d_connections = [],
       d_viewport =
         \<lparr> v_x = or_num (case dd_viewport options of None \<Rightarrow> None | Some v \<Rightarrow> vd_x v) 0,
           v_y = or_num (case dd_viewport options of None \<Rightarrow> None | Some v \<Rightarrow> vd_y v) 0,
           v_zoom = or_num (case dd_viewport options of None \<Rightarrow> None | Some v \<Rightarrow> vd_zoom v) 1 \<rparr>,
       d_metadata =
         [''author'' \<mapsto> JStr [], ''version'' \<mapsto> JStr ''1.0''] ++ spread (dd_metadata options) \<rparr>"

definition Diagram_toJSON :: "store \<Rightarrow> diagram_data" where
  "Diagram_toJSON st =
     (let d = st_diagram st
      in \<lparr> dd_id = Some (d_id d), dd_type = Some (d_type d), dd_name = Some (d_name d),
           dd_created = Some (d_created d), dd_modified = Some (d_modified d),
           dd_viewport = Some \<lparr> vd_x = Some (v_x (d_viewport d)), vd_y = Some (v_y (d_viewport d)),
                                vd_zoom = Some (v_zoom (d_viewport d)) \<rparr>,
           dd_metadata = Some (d_metadata d),
           dd_shapes = Some (map (\<lambda>r. shape_toJSON (st_shapes st r)) (getShapes st)),
           dd_connections = Some (map (\<lambda>r. conn_toJSON (st_conns st r)) (getConnections st)) \<rparr>)"

text \<open>
  The two loops of \<^verbatim>\<open>fromJSON\<close>. Each object a factory returns is new: it is stored at
  the next unused reference.
\<close>

fun restore_shapes :: "(shape_data \<Rightarrow> shape) \<Rightarrow> shape_data list \<Rightarrow> store \<Rightarrow> store" where
  "restore_shapes shapeFactory [] st = st"
| "restore_shapes shapeFactory (shapeData # rest) st =
     (let shape = shapeFactory shapeData;
          r = st_next st;
          d = st_diagram st
      in restore_shapes shapeFactory rest
           (st\<lparr> st_shapes := (st_shapes st)(r := shape),
                st_next := Suc r,
                st_diagram := d\<lparr>d_shapes := Map_set (s_id shape) r (d_shapes d)\<rparr> \<rparr>))"

fun restore_connections :: "(conn_data \<Rightarrow> connection) \<Rightarrow> conn_data list \<Rightarrow> store \<Rightarrow> store" where
  "restore_connections connectionFactory [] st = st"
| "restore_connections connectionFactory (connData # rest) st =
     (let c0 = connectionFactory connData;
          r = st_next st;
          d = st_diagram st;
          c1 = (if truthy (shapeId (c_source c0))
                then c0\<lparr>c_sourceShape := resolve d (shapeId (c_source c0))\<rparr>
                else c0);
          c2 = (if truthy (shapeId (c_target c1))
                then c1\<lparr>c_targetShape := resolve d (shapeId (c_target c1))\<rparr>
                else c1)
      in restore_connections connectionFactory rest
           (st\<lparr> st_conns := (st_conns st)(r := c2),
                st_next := Suc r,
                st_diagram := d\<lparr>d_connections := Map_set (c_id c2) r (d_connections d)\<rparr> \<rparr>))"

text \<open>
  \<^verbatim>\<open>Diagram.fromJSON(data, shapeFactory, connectionFactory)\<close>: the new diagram becomes the
  diagram of the store. A factory may be missing.
\<close>

definition Diagram_fromJSON ::
  "string \<Rightarrow> diagram_data \<Rightarrow> (shape_data \<Rightarrow> shape) option \<Rightarrow> (conn_data \<Rightarrow> connection) option
     \<Rightarrow> store \<Rightarrow> store" where
  "Diagram_fromJSON fresh data shapeFactory connectionFactory st =
     (let st0 = st\<lparr>st_diagram := new_Diagram fresh (st_now st) data\<rparr>;
          st1 = (case (dd_shapes data, shapeFactory) of
                   (Some shapes, Some f) \<Rightarrow> restore_shapes f shapes st0
                 | _ \<Rightarrow> st0);
          st2 = (case (dd_connections data, connectionFactory) of
                   (Some conns, Some f) \<Rightarrow> restore_connections f conns st1
                 | _ \<Rightarrow> st1)
      in st2)"

section \<open>Connection end points (src/shapes/Connection.js)\<close>

text \<open>The result is \<open>None\<close> where the code returns \<^verbatim>\<open>undefined\<close> (an anchor that names no side).\<close>

definition getStartPoint :: "store \<Rightarrow> connection \<Rightarrow> point option" where
  "getStartPoint st c =
     (case c_sourceShape c of
        None \<Rightarrow> Some (Point 0 0)
      | Some sourceShape \<Rightarrow>
          if anchor (c_source c) = ''auto'' then
            (let targetCenter =
                   (case c_targetShape c of
                      Some targetShape \<Rightarrow> center (getBounds (st_shapes st targetShape))
                    | None \<Rightarrow> (if length (c_waypoints c) > 0 then hd (c_waypoints c) else Point 0 0))
             in snd (getNearestConnectionPoint (st_shapes st sourceShape) targetCenter))
          else getConnectionPoints (st_shapes st sourceShape) (anchor (c_source c)))"

definition getEndPoint :: "store \<Rightarrow> connection \<Rightarrow> point option" where
  "getEndPoint st c =
     (case c_targetShape c of
        None \<Rightarrow> Some (Point 0 0)
      | Some targetShape \<Rightarrow>
          if anchor (c_target c) = ''auto'' then
            (let sourceCenter =
                   (case c_sourceShape c of
                      Some sourceShape \<Rightarrow> center (getBounds (st_shapes st sourceShape))
                    | None \<Rightarrow> (if length (c_waypoints c) > 0 then last (c_waypoints c) else Point 0 0))
             in snd (getNearestConnectionPoint (st_shapes st targetShape) sourceCenter))
          else getConnectionPoints (st_shapes st targetShape) (anchor (c_target c)))"

section \<open>Executing and undoing commands (src/commands/Commands.js)\<close>

text \<open>\<^verbatim>\<open>new RemoveShapeCommand(diagram, shape)\<close> starts with no related connections.\<close>

definition new_RemoveShapeCommand :: "nat \<Rightarrow> command" where
  "new_RemoveShapeCommand r = RemoveShapeCommand r []"

definition update_shape :: "nat \<Rightarrow> (shape \<Rightarrow> shape) \<Rightarrow> store \<Rightarrow> store" where
  "update_shape r f st = st\<lparr>st_shapes := (st_shapes st)(r := f (st_shapes st r))\<rparr>"

definition update_conn :: "nat \<Rightarrow> (connection \<Rightarrow> connection) \<Rightarrow> store \<Rightarrow> store" where
  "update_conn r f st = st\<lparr>st_conns := (st_conns st)(r := f (st_conns st r))\<rparr>"

text \<open>The \<^verbatim>\<open>forEach\<close> loops of the commands.\<close>

fun removeConnections :: "nat list \<Rightarrow> store \<Rightarrow> store" where
  "removeConnections [] st = st"
| "removeConnections (r # rs) st =
     removeConnections rs (snd (removeConnection (c_id (st_conns st r)) st))"

fun addConnections :: "nat list \<Rightarrow> store \<Rightarrow> store" where
  "addConnections [] st = st"
| "addConnections (r # rs) st = addConnections rs (addConnection r st)"

fun moveShapes :: "nat list \<Rightarrow> real \<Rightarrow> real \<Rightarrow> store \<Rightarrow> store" where
  "moveShapes [] dx dy st = st"
| "moveShapes (r # rs) dx dy st = moveShapes rs dx dy (update_shape r (move dx dy) st)"

text \<open>
  \<^verbatim>\<open>execute()\<close>: the left summand is a thrown exception, with the command and the store as
  the throw leaves them. \<^verbatim>\<open>setStyle\<close> exists on shapes only, so a style update of a
  connection is a \<^verbatim>\<open>TypeError\<close>.
\<close>

fun command_execute :: "command \<Rightarrow> store \<Rightarrow> error \<times> command \<times> store + command \<times> store"
and execute_each :: "command list \<Rightarrow> store \<Rightarrow> error \<times> command list \<times> store + command list \<times> store"
where
  "command_execute Command st =
     Inl (Error ''Command.execute() must be implemented'', Command, st)"
| "command_execute (AddShapeCommand r) st = Inr (AddShapeCommand r, addShape r st)"
| "command_execute (RemoveShapeCommand r rel) st =
     (let relatedConnections = getConnectionsForShape st (s_id (st_shapes st r));
          st1 = removeConnections relatedConnections st;
          st2 = snd (removeShape (s_id (st_shapes st1 r)) st1)
      in Inr (RemoveShapeCommand r relatedConnections, st2))"
| "command_execute (MoveShapesCommand rs dx dy) st =
     Inr (MoveShapesCommand rs dx dy, moveShapes rs dx dy st)"
| "command_execute (ResizeShapeCommand r oldBounds newBounds) st =
     Inr (ResizeShapeCommand r oldBounds newBounds,
          update_shape r (setSize (b_width newBounds) (b_height newBounds))
            (update_shape r (setPosition (b_x newBounds) (b_y newBounds)) st))"
| "command_execute (AddConnectionCommand r) st = Inr (AddConnectionCommand r, addConnection r st)"
| "command_execute (RemoveConnectionCommand r) st =
     Inr (RemoveConnectionCommand r, snd (removeConnection (c_id (st_conns st r)) st))"
| "command_execute (UpdatePropertyCommand (ShapeElement r) property oldValue newValue) st =
     Inr (UpdatePropertyCommand (ShapeElement r) property oldValue newValue,
          update_shape r (shape_setProperty property newValue) st)"
| "command_execute (UpdatePropertyCommand (ConnectionElement r) property oldValue newValue) st =
     Inr (UpdatePropertyCommand (ConnectionElement r) property oldValue newValue,
          update_conn r (conn_setProperty property newValue) st)"
| "command_execute (UpdateStyleCommand (ShapeElement r) oldStyle newStyle) st =
     Inr (UpdateStyleCommand (ShapeElement r) oldStyle newStyle,
          update_shape r (setStyle newStyle) st)"
| "command_execute (UpdateStyleCommand (ConnectionElement r) oldStyle newStyle) st =
     Inl (TypeError ''this.element.setStyle is not a function'',
          UpdateStyleCommand (ConnectionElement r) oldStyle newStyle, st)"
| "command_execute (CompositeCommand cs) st =
     (case execute_each cs st of
        Inl (e, cs', st') \<Rightarrow> Inl (e, CompositeCommand cs', st')
      | Inr (cs', st') \<Rightarrow> Inr (CompositeCommand cs', st'))"
| "execute_each [] st = Inr ([], st)"
| "execute_each (c # cs) st =
     (case command_execute c st of
        Inl (e, c', st') \<Rightarrow> Inl (e, c' # cs, st')
      | Inr (c', st') \<Rightarrow>
          (case execute_each cs st' of
             Inl (e, cs', st'') \<Rightarrow> Inl (e, c' # cs', st'')
           | Inr (cs', st'') \<Rightarrow> Inr (c' # cs', st'')))"

text \<open>
  \<^verbatim>\<open>undo()\<close>. No \<^verbatim>\<open>undo\<close> writes to its command. \<open>undo_each\<close> is the loop of
  \<^verbatim>\<open>CompositeCommand.undo\<close>, from the last child down to the first.
\<close>

fun command_undo :: "command \<Rightarrow> store \<Rightarrow> error \<times> store + store"
and undo_each :: "command list \<Rightarrow> store \<Rightarrow> error \<times> store + store"
where
  "command_undo Command st = Inl (Error ''Command.undo() must be implemented'', st)"
| "command_undo (AddShapeCommand r) st = Inr (snd (removeShape (s_id (st_shapes st r)) st))"
| "command_undo (RemoveShapeCommand r relatedConnections) st =
     Inr (addConnections relatedConnections (addShape r st))"
| "command_undo (MoveShapesCommand rs dx dy) st = Inr (moveShapes rs (- dx) (- dy) st)"
| "command_undo (ResizeShapeCommand r oldBounds newBounds) st =
     Inr (update_shape r (setSize (b_width oldBounds) (b_height oldBounds))
            (update_shape r (setPosition (b_x oldBounds) (b_y oldBounds)) st))"
| "command_undo (AddConnectionCommand r) st =
     Inr (snd (removeConnection (c_id (st_conns st r)) st))"
| "command_undo (RemoveConnectionCommand r) st = Inr (addConnection r st)"
| "command_undo (UpdatePropertyCommand (ShapeElement r) property oldValue newValue) st =
     Inr (update_shape r (shape_setProperty property oldValue) st)"
| "command_undo (UpdatePropertyCommand (ConnectionElement r) property oldValue newValue) st =
     Inr (update_conn r (conn_setProperty property oldValue) st)"
| "command_undo (UpdateStyleCommand (ShapeElement r) oldStyle newStyle) st =
     Inr (update_shape r (setStyle oldStyle) st)"
| "command_undo (UpdateStyleCommand (ConnectionElement r) oldStyle newStyle) st =
     Inl (TypeError ''this.element.setStyle is not a function'', st)"
| "command_undo (CompositeCommand cs) st = undo_each cs st"
| "undo_each [] st = Inr st"
| "undo_each (c # cs) st =
     (case undo_each cs st of
        Inl (e, st') \<Rightarrow> Inl (e, st')
      | Inr st' \<Rightarrow> command_undo c st')"

text \<open>
  \<^verbatim>\<open>command.execute()\<close> and \<^verbatim>\<open>command.undo()\<close> on the command object behind a reference:
  what \<^verbatim>\<open>execute\<close> writes to the command is written back to the store, also when it
  throws.
\<close>

definition run_execute :: "nat \<Rightarrow> store \<Rightarrow> error \<times> store + store" where
  "run_execute command st =
     (case command_execute (st_commands st command) st of
        Inl (e, c', st') \<Rightarrow> Inl (e, st'\<lparr>st_commands := (st_commands st')(command := c')\<rparr>)
      | Inr (c', st') \<Rightarrow> Inr (st'\<lparr>st_commands := (st_commands st')(command := c')\<rparr>))"

definition run_undo :: "nat \<Rightarrow> store \<Rightarrow> error \<times> store + store" where
  "run_undo command st = command_undo (st_commands st command) st"

section \<open>The command manager (src/core/CommandManager.js)\<close>

text \<open>
  The two stacks are JavaScript arrays of command objects: \<^verbatim>\<open>push\<close> appends at the end,
  \<^verbatim>\<open>pop\<close> takes the last element, \<^verbatim>\<open>shift\<close> drops the first. The notifications sent
  through the event bus change neither the stacks nor the diagram (\<^verbatim>\<open>emit\<close> catches what
  a listener throws) and are left out.
\<close>

record CommandManager =
  undoStack :: "nat list"
  redoStack :: "nat list"
  maxHistory :: nat

definition new_CommandManager :: CommandManager where
  "new_CommandManager = \<lparr> undoStack = [], redoStack = [], maxHistory = 50 \<rparr>"

definition canUndo :: "CommandManager \<Rightarrow> bool" where
  "canUndo cm = (length (undoStack cm) > 0)"

definition canRedo :: "CommandManager \<Rightarrow> bool" where
  "canRedo cm = (length (redoStack cm) > 0)"

text \<open>The history limit shared by \<^verbatim>\<open>execute\<close> and \<^verbatim>\<open>addToHistory\<close>: one \<^verbatim>\<open>shift\<close>.\<close>

definition limit_history :: "CommandManager \<Rightarrow> CommandManager" where
  "limit_history cm =
     (if length (undoStack cm) > maxHistory cm then cm\<lparr>undoStack := tl (undoStack cm)\<rparr> else cm)"

text \<open>
  \<^verbatim>\<open>execute(command)\<close>: \<open>Inl\<close> is the rethrown exception together with the manager and the
  store at that moment.
\<close>

definition execute :: "nat \<Rightarrow> CommandManager \<times> store \<Rightarrow> error \<times> CommandManager \<times> store + CommandManager \<times> store" where
  "execute command s =
     (case s of (cm, st) \<Rightarrow>
        (case run_execute command st of
           Inl (e, st') \<Rightarrow> Inl (e, cm, st')
         | Inr st' \<Rightarrow>
             Inr (limit_history (cm\<lparr>undoStack := undoStack cm @ [command], redoStack := []\<rparr>), st')))"

definition addToHistory :: "nat \<Rightarrow> CommandManager \<Rightarrow> CommandManager" where
  "addToHistory command cm =
     limit_history (cm\<lparr>undoStack := undoStack cm @ [command], redoStack := []\<rparr>)"

definition undo :: "CommandManager \<times> store \<Rightarrow> bool \<times> CommandManager \<times> store" where
  "undo s =
     (case s of (cm, st) \<Rightarrow>
        if \<not> canUndo cm then (False, cm, st)
        else
          (let command = last (undoStack cm);
               cm1 = cm\<lparr>undoStack := butlast (undoStack cm)\<rparr>
           in case run_undo command st of
                Inr st' \<Rightarrow> (True, cm1\<lparr>redoStack := redoStack cm1 @ [command]\<rparr>, st')
              | Inl (e, st') \<Rightarrow> (False, cm1\<lparr>undoStack := undoStack cm1 @ [command]\<rparr>, st')))"

definition redo :: "CommandManager \<times> store \<Rightarrow> bool \<times> CommandManager \<times> store" where
  "redo s =
     (case s of (cm, st) \<Rightarrow>
        if \<not> canRedo cm then (False, cm, st)
        else
          (let command = last (redoStack cm);
               cm1 = cm\<lparr>redoStack := butlast (redoStack cm)\<rparr>
           in case run_execute command st of
                Inr st' \<Rightarrow> (True, cm1\<lparr>undoStack := undoStack cm1 @ [command]\<rparr>, st')
              | Inl (e, st') \<Rightarrow> (False, cm1\<lparr>redoStack := redoStack cm1 @ [command]\<rparr>, st')))"

definition clear :: "CommandManager \<Rightarrow> CommandManager" where
  "clear cm = cm\<lparr>undoStack := [], redoStack := []\<rparr>"

text \<open>
  A client of the manager issues calls one after another; a call of \<^verbatim>\<open>execute\<close> that
  throws leaves the state of the throw behind. \<open>run\<close> applies a sequence of calls.
\<close>

datatype call = Execute nat | AddToHistory nat | Undo | Redo | Clear

fun step :: "call \<Rightarrow> CommandManager \<times> store \<Rightarrow> CommandManager \<times> store" where
  "step (Execute c) s = (case execute c s of Inl (e, s') \<Rightarrow> s' | Inr s' \<Rightarrow> s')"
| "step (AddToHistory c) (cm, st) = (addToHistory c cm, st)"
| "step Undo s = snd (undo s)"
| "step Redo s = snd (redo s)"
| "step Clear (cm, st) = (clear cm, st)"

fun run :: "call list \<Rightarrow> CommandManager \<times> store \<Rightarrow> CommandManager \<times> store" where
  "run [] s = s"
| "run (c # cs) s = run cs (step c s)"

text \<open>
  \<open>recorded cs s\<close>: every call in \<open>cs\<close> is an \<^verbatim>\<open>execute\<close> that returns normally or an
  \<^verbatim>\<open>addToHistory\<close>, when issued in turn from \<open>s\<close>; \<open>command_of\<close> is the command of the call.
\<close>

fun recorded :: "call list \<Rightarrow> CommandManager \<times> store \<Rightarrow> bool" where
  "recorded [] s = True"
| "recorded (Execute c # cs) s =
     (case execute c s of Inl _ \<Rightarrow> False | Inr s' \<Rightarrow> recorded cs s')"
| "recorded (AddToHistory c # cs) s = recorded cs (step (AddToHistory c) s)"
| "recorded (_ # cs) s = False"

fun command_of :: "call \<Rightarrow> nat option" where
  "command_of (Execute c) = Some c"
| "command_of (AddToHistory c) = Some c"
| "command_of _ = None"

section \<open>Resize bounds (InteractionController.js, src/canvas/ResizeHandleManager.js)\<close>

text \<open>\<^verbatim>\<open>handleId.includes('w')\<close> with a one-character argument.\<close>

definition str_includes :: "string \<Rightarrow> char \<Rightarrow> bool" where
  "str_includes handleId ch = (ch \<in> set handleId)"

text \<open>
  \<^verbatim>\<open>InteractionController.calculateNewBounds\<close>: the \<^verbatim>\<open>switch\<close> over the handle id (an
  unknown id changes nothing), then the two clamps against the constants 40 and 30. The
  sums and differences are those of doubles; they are evaluated below on small integers
  only, where they are exact.
\<close>

definition calculateNewBounds :: "bounds \<Rightarrow> string \<Rightarrow> real \<Rightarrow> real \<Rightarrow> bounds" where
  "calculateNewBounds original handleId dx dy =
     (let b0 = original;
          b1 = (if handleId = ''nw'' then
                  b0\<lparr>b_x := b_x b0 + dx, b_y := b_y b0 + dy,
                     b_width := b_width b0 - dx, b_height := b_height b0 - dy\<rparr>
                else if handleId = ''n'' then
                  b0\<lparr>b_y := b_y b0 + dy, b_height := b_height b0 - dy\<rparr>
                else if handleId = ''ne'' then
                  b0\<lparr>b_y := b_y b0 + dy, b_width := b_width b0 + dx, b_height := b_height b0 - dy\<rparr>
                else if handleId = ''e'' then
                  b0\<lparr>b_width := b_width b0 + dx\<rparr>
                else if handleId = ''se'' then
                  b0\<lparr>b_width := b_width b0 + dx, b_height := b_height b0 + dy\<rparr>
                else if handleId = ''s'' then
                  b0\<lparr>b_height := b_height b0 + dy\<rparr>
                else if handleId = ''sw'' then
                  b0\<lparr>b_x := b_x b0 + dx, b_width := b_width b0 - dx, b_height := b_height b0 + dy\<rparr>
                else if handleId = ''w'' then
                  b0\<lparr>b_x := b_x b0 + dx, b_width := b_width b0 - dx\<rparr>
                else b0);
          minW = 40; minH = 30;
          b2 = (if b_width b1 < minW then
                  (if str_includes handleId CHR ''w''
                   then b1\<lparr>b_x := b_x b1 - (minW - b_width b1)\<rparr> else b1)\<lparr>b_width := minW\<rparr>
                else b1);
          b3 = (if b_height b2 < minH then
                  (if str_includes handleId CHR ''n''
                   then b2\<lparr>b_y := b_y b2 - (minH - b_height b2)\<rparr> else b2)\<lparr>b_height := minH\<rparr>
                else b2)
      in b3)"

text \<open>\<^verbatim>\<open>ResizeHandleManager.calculateNewBounds\<close>, the same computation written once more.\<close>

definition rhm_calculateNewBounds :: "bounds \<Rightarrow> string \<Rightarrow> real \<Rightarrow> real \<Rightarrow> bounds" where
  "rhm_calculateNewBounds originalBounds handleId dx dy =
     (let b0 = originalBounds;
          b1 = (if handleId = ''nw'' then
                  b0\<lparr>b_x := b_x b0 + dx, b_y := b_y b0 + dy,
                     b_width := b_width b0 - dx, b_height := b_height b0 - dy\<rparr>
                else if handleId = ''n'' then
                  b0\<lparr>b_y := b_y b0 + dy, b_height := b_height b0 - dy\<rparr>
                else if handleId = ''ne'' then
                  b0\<lparr>b_y := b_y b0 + dy, b_width := b_width b0 + dx, b_height := b_height b0 - dy\<rparr>
                else if handleId = ''e'' then
                  b0\<lparr>b_width := b_width b0 + dx\<rparr>
                else if handleId = ''se'' then
                  b0\<lparr>b_width := b_width b0 + dx, b_height := b_height b0 + dy\<rparr>
                else if handleId = ''s'' then
                  b0\<lparr>b_height := b_height b0 + dy\<rparr>
                else if handleId = ''sw'' then
                  b0\<lparr>b_x := b_x b0 + dx, b_width := b_width b0 - dx, b_height := b_height b0 + dy\<rparr>
                else if handleId = ''w'' then
                  b0\<lparr>b_x := b_x b0 + dx, b_width := b_width b0 - dx\<rparr>
                else b0);
          minWidth = 40; minHeight = 30;
          b2 = (if b_width b1 < minWidth then
                  (if str_includes handleId CHR ''w''
                   then b1\<lparr>b_x := b_x b1 - (minWidth - b_width b1)\<rparr> else b1)\<lparr>b_width := minWidth\<rparr>
                else b1);
          b3 = (if b_height b2 < minHeight then
                  (if str_includes handleId CHR ''n''
                   then b2\<lparr>b_y := b_y b2 - (minHeight - b_height b2)\<rparr> else b2)\<lparr>b_height := minHeight\<rparr>
                else b2)
      in b3)"

text \<open>The bounds of a shape, as \<^verbatim>\<open>startResize\<close> captures them.\<close>

definition bounds_of :: "shape \<Rightarrow> bounds" where
  "bounds_of s = \<lparr> b_x = s_x s, b_y = s_y s, b_width = s_width s, b_height = s_height s \<rparr>"

section \<open>Well-formed stores and observations\<close>

text \<open>
  In a store built through the diagram's operations each collection has one entry per key
  and files every object under its own id.
\<close>

definition wf_store :: "store \<Rightarrow> bool" where
  "wf_store st =
     (distinct (map fst (d_shapes (st_diagram st)))
      \<and> distinct (map fst (d_connections (st_diagram st)))
      \<and> list_all (\<lambda>(k, r). s_id (st_shapes st r) = k) (d_shapes (st_diagram st))
      \<and> list_all (\<lambda>(k, r). c_id (st_conns st r) = k) (d_connections (st_diagram st)))"

text \<open>What is observed of a shape: its geometry, its properties and its style.\<close>

definition shape_obs :: "shape \<Rightarrow> (real \<times> real \<times> real \<times> real) \<times> jsobject \<times> jsobject" where
  "shape_obs s = ((s_x s, s_y s, s_width s, s_height s), s_properties s, s_style s)"

text \<open>
  What is observed of a connection: its two end descriptors, its waypoints, its properties
  and its style.
\<close>

definition conn_obs :: "connection \<Rightarrow> endpoint \<times> endpoint \<times> point list \<times> jsobject \<times> jsobject" where
  "conn_obs c = (c_source c, c_target c, c_waypoints c, c_properties c, c_style c)"

text \<open>
  Two stores are observationally equal when the diagram holds the same shapes and the same
  connections under the same ids and every one of them shows the same observation.
\<close>

definition same_model :: "store \<Rightarrow> store \<Rightarrow> bool" where
  "same_model s t =
     (set (d_shapes (st_diagram s)) = set (d_shapes (st_diagram t))
      \<and> set (d_connections (st_diagram s)) = set (d_connections (st_diagram t))
      \<and> list_all (\<lambda>(k, r). shape_obs (st_shapes s r) = shape_obs (st_shapes t r))
           (d_shapes (st_diagram s))
      \<and> list_all (\<lambda>(k, r). conn_obs (st_conns s r) = conn_obs (st_conns t r))
           (d_connections (st_diagram s)))"




text \<open>The invariant on end points: a stored connection has both ends in the shape collection.\<close>

definition endpoint_present :: "store \<Rightarrow> endpoint \<Rightarrow> bool" where
  "endpoint_present st e =
     (case shapeId e of None \<Rightarrow> False | Some sid \<Rightarrow> getShape st sid \<noteq> None)"

definition connection_valid :: "store \<Rightarrow> nat \<Rightarrow> bool" where
  "connection_valid st r =
     (endpoint_present st (c_source (st_conns st r)) \<and> endpoint_present st (c_target (st_conns st r)))"

definition endpoints_invariant :: "store \<Rightarrow> bool" where
  "endpoints_invariant st =
     list_all (\<lambda>(k, r). connection_valid st r) (d_connections (st_diagram st))"

text \<open>
  The references of a connection are resolved when each end that carries an id points to
  what the shape collection holds under that id.
\<close>

definition links_resolved :: "store \<Rightarrow> nat \<Rightarrow> bool" where
  "links_resolved st q =
     ((truthy (shapeId (c_source (st_conns st q)))
         \<longrightarrow> c_sourceShape (st_conns st q)
               = resolve (st_diagram st) (shapeId (c_source (st_conns st q))))
      \<and> (truthy (shapeId (c_target (st_conns st q)))
         \<longrightarrow> c_targetShape (st_conns st q)
               = resolve (st_diagram st) (shapeId (c_target (st_conns st q)))))"

section \<open>Selection (src/canvas/SelectionManager.js)\<close>

text \<open>
  The editor: the interaction controller with the selection manager, the command manager
  and the store it works on. The two selection sets are insertion-ordered sets of object
  references; the \<^verbatim>\<open>selected\<close> flags of the objects are rendering state and left out.
\<close>

record controller =
  currentTool :: string
  state :: string
  dragStartPoint :: "point option"
  isDragging :: bool
  isResizing :: bool
  resizeHandle :: "string option"
  resizeStartBounds :: "bounds option"
  resizingShape :: "nat option"
  connectionSource :: "nat option"

record editor =
  ctl :: controller
  selectedShapes :: "nat list"
  selectedConnections :: "nat list"
  history :: CommandManager
  model :: store

definition new_controller :: controller where
  "new_controller =
     \<lparr> currentTool = ''select'', state = ''idle'', dragStartPoint = None, isDragging = False,
       isResizing = False, resizeHandle = None, resizeStartBounds = None,
       resizingShape = None, connectionSource = None \<rparr>"

definition set_add :: "nat \<Rightarrow> nat list \<Rightarrow> nat list" where
  "set_add r xs = (if r \<in> set xs then xs else xs @ [r])"

definition clearSelection :: "editor \<Rightarrow> editor" where
  "clearSelection ed = ed\<lparr>selectedShapes := [], selectedConnections := []\<rparr>"

definition selectShape :: "nat \<Rightarrow> bool \<Rightarrow> editor \<Rightarrow> editor" where
  "selectShape shape addToSelection ed =
     (let ed1 = (if \<not> addToSelection then clearSelection ed else ed)
      in ed1\<lparr>selectedShapes := set_add shape (selectedShapes ed1)\<rparr>)"

definition selectConnection :: "nat \<Rightarrow> bool \<Rightarrow> editor \<Rightarrow> editor" where
  "selectConnection connection addToSelection ed =
     (let ed1 = (if \<not> addToSelection then clearSelection ed else ed)
      in ed1\<lparr>selectedConnections := set_add connection (selectedConnections ed1)\<rparr>)"

definition deselectShape :: "nat \<Rightarrow> editor \<Rightarrow> editor" where
  "deselectShape shape ed = ed\<lparr>selectedShapes := removeAll shape (selectedShapes ed)\<rparr>"

definition toggleShape :: "nat \<Rightarrow> editor \<Rightarrow> editor" where
  "toggleShape shape ed =
     (if shape \<in> set (selectedShapes ed) then deselectShape shape ed
      else selectShape shape True ed)"

section \<open>The interaction controller (InteractionController.js)\<close>

text \<open>
  What the controller reads from its collaborators: the active plugin with its shape
  definitions, connector types and validation, the shape factory, and the id generator.
  A validation result is a boolean or an object with a \<^verbatim>\<open>valid\<close> field.
\<close>

record shape_definition =
  defaultWidth :: real
  defaultHeight :: real

datatype validation = Plain bool | Object bool "string option"

record plugin =
  plugin_id :: string
  getShapeDefinitions :: "string \<rightharpoonup> shape_definition"
  getConnectorTypes :: "string list"
  validateConnection :: "shape \<Rightarrow> shape \<Rightarrow> string \<Rightarrow> validation"

record environment =
  getActive :: "plugin option"
  ShapeFactory_create :: "string \<Rightarrow> shape_data \<Rightarrow> shape"
  generateId :: "nat \<Rightarrow> string"

text \<open>
  What a pointer event hits, as the handlers ask the DOM: the closest resize handle with
  its \<^verbatim>\<open>data-handle\<close> and the \<^verbatim>\<open>data-shape-id\<close> of its group, the closest shape element
  with its \<^verbatim>\<open>data-id\<close>, the closest connector element with its \<^verbatim>\<open>data-id\<close>.
\<close>

record target =
  closest_resize_handle :: "(string \<times> string option) option"
  closest_shape :: "string option"
  closest_connector :: "string option"

definition snapToGrid :: "real \<Rightarrow> real \<Rightarrow> real" where
  "snapToGrid v gridSize = of_int \<lfloor>v / gridSize + 1 / 2\<rfloor> * gridSize"

text \<open>New objects are stored at the next unused reference.\<close>

definition alloc_shape :: "shape \<Rightarrow> store \<Rightarrow> nat \<times> store" where
  "alloc_shape s st =
     (st_next st, st\<lparr>st_shapes := (st_shapes st)(st_next st := s), st_next := Suc (st_next st)\<rparr>)"

definition alloc_conn :: "connection \<Rightarrow> store \<Rightarrow> nat \<times> store" where
  "alloc_conn c st =
     (st_next st, st\<lparr>st_conns := (st_conns st)(st_next st := c), st_next := Suc (st_next st)\<rparr>)"

definition alloc_command :: "command \<Rightarrow> store \<Rightarrow> nat \<times> store" where
  "alloc_command c st =
     (st_next st, st\<lparr>st_commands := (st_commands st)(st_next st := c), st_next := Suc (st_next st)\<rparr>)"

text \<open>
  \<^verbatim>\<open>this.commandManager.execute(new ...Command(...))\<close>. The commands the controller builds
  (add shape, remove shape, add connection) do not throw.
\<close>

definition execute_new :: "command \<Rightarrow> editor \<Rightarrow> editor" where
  "execute_new c ed =
     (case alloc_command c (model ed) of
        (r, st) \<Rightarrow>
          (case step (Execute r) (history ed, st) of
             (cm, st') \<Rightarrow> ed\<lparr>history := cm, model := st'\<rparr>))"

definition resetConnectionState :: "editor \<Rightarrow> editor" where
  "resetConnectionState ed = ed\<lparr>ctl := (ctl ed)\<lparr>connectionSource := None, state := ''idle''\<rparr>\<rparr>"

definition resetState :: "editor \<Rightarrow> editor" where
  "resetState ed =
     resetConnectionState
       (ed\<lparr>ctl := (ctl ed)\<lparr>state := ''idle'', isDragging := False, dragStartPoint := None\<rparr>\<rparr>)"

definition handleToolSelected :: "string \<Rightarrow> editor \<Rightarrow> editor" where
  "handleToolSelected toolId ed = resetState (ed\<lparr>ctl := (ctl ed)\<lparr>currentTool := toolId\<rparr>\<rparr>)"

definition startResize :: "nat \<Rightarrow> string \<Rightarrow> point \<Rightarrow> editor \<Rightarrow> editor" where
  "startResize shape handleId pt ed =
     ed\<lparr>ctl := (ctl ed)
          \<lparr> isResizing := True, state := ''resizing'', resizeHandle := Some handleId,
            resizeStartBounds := Some (bounds_of (st_shapes (model ed) shape)),
            dragStartPoint := Some (Point (p_x pt) (p_y pt)),
            resizingShape := Some shape \<rparr>\<rparr>"

text \<open>
  \<^verbatim>\<open>doResize\<close> writes the new bounds into the shape directly. The start bounds and the
  handle are set and cleared together with \<^verbatim>\<open>resizingShape\<close>.
\<close>

definition doResize :: "point \<Rightarrow> editor \<Rightarrow> editor" where
  "doResize pt ed =
     (case (resizingShape (ctl ed), dragStartPoint (ctl ed), resizeStartBounds (ctl ed),
            resizeHandle (ctl ed)) of
        (Some shape, Some start, Some startBounds, Some handleId) \<Rightarrow>
          (let dx = p_x pt - p_x start;
               dy = p_y pt - p_y start;
               newBounds = calculateNewBounds startBounds handleId dx dy
           in ed\<lparr>model := update_shape shape
                    (\<lambda>s. s\<lparr>s_x := b_x newBounds, s_y := b_y newBounds,
                            s_width := b_width newBounds, s_height := b_height newBounds\<rparr>)
                    (model ed)\<rparr>)
      | _ \<Rightarrow> ed)"

definition endResize :: "editor \<Rightarrow> editor" where
  "endResize ed =
     (let ed1 =
            (case (resizingShape (ctl ed), resizeStartBounds (ctl ed)) of
               (Some shape, Some startBounds) \<Rightarrow>
                 (let newBounds = bounds_of (st_shapes (model ed) shape)
                  in if b_x newBounds \<noteq> b_x startBounds \<or> b_y newBounds \<noteq> b_y startBounds
                        \<or> b_width newBounds \<noteq> b_width startBounds
                        \<or> b_height newBounds \<noteq> b_height startBounds
                     then (case alloc_command (ResizeShapeCommand shape startBounds newBounds) (model ed) of
                             (r, st) \<Rightarrow> ed\<lparr>history := addToHistory r (history ed), model := st\<rparr>)
                     else ed)
             | _ \<Rightarrow> ed)
      in ed1\<lparr>ctl := (ctl ed1)\<lparr> isResizing := False, state := ''idle'', resizeHandle := None,
                               resizeStartBounds := None, resizingShape := None \<rparr>\<rparr>)"

definition startDrag :: "point \<Rightarrow> editor \<Rightarrow> editor" where
  "startDrag pt ed =
     (if length (selectedShapes ed) = 0 then ed
      else ed\<lparr>ctl := (ctl ed)\<lparr> isDragging := True, state := ''dragging'',
                              dragStartPoint := Some (Point (p_x pt) (p_y pt)) \<rparr>\<rparr>)"

definition doDrag :: "point \<Rightarrow> editor \<Rightarrow> editor" where
  "doDrag pt ed =
     (case dragStartPoint (ctl ed) of
        None \<Rightarrow> ed
      | Some start \<Rightarrow>
          (let dx = p_x pt - p_x start;
               dy = p_y pt - p_y start
           in ed\<lparr> model := moveShapes (selectedShapes ed) dx dy (model ed),
                   ctl := (ctl ed)\<lparr>dragStartPoint := Some (Point (p_x pt) (p_y pt))\<rparr> \<rparr>))"

definition endDrag :: "editor \<Rightarrow> editor" where
  "endDrag ed =
     ed\<lparr>ctl := (ctl ed)\<lparr>isDragging := False, state := ''idle'', dragStartPoint := None\<rparr>\<rparr>"

definition handleMouseUp :: "editor \<Rightarrow> editor" where
  "handleMouseUp ed =
     (let ed1 = (if isDragging (ctl ed) \<and> state (ctl ed) = ''dragging'' then endDrag ed else ed);
          ed2 = (if isResizing (ctl ed1) \<and> state (ctl ed1) = ''resizing'' then endResize ed1 else ed1)
      in ed2)"

definition handleCanvasMouseMove :: "point \<Rightarrow> editor \<Rightarrow> editor" where
  "handleCanvasMouseMove pt ed =
     (let ed1 = (if isDragging (ctl ed) \<and> state (ctl ed) = ''dragging'' then doDrag pt ed else ed);
          ed2 = (if isResizing (ctl ed1) \<and> state (ctl ed1) = ''resizing'' then doResize pt ed1 else ed1)
      in ed2)"

text \<open>
  \<^verbatim>\<open>handleSelectClick\<close>. \<^verbatim>\<open>ResizeHandleManager\<close> renders the handles only while exactly
  one shape is selected, each with its \<^verbatim>\<open>data-handle\<close> inside a group that carries the
  \<^verbatim>\<open>data-shape-id\<close> of that shape. For a handle without that id the code falls back to
  \<^verbatim>\<open>getPrimarySelection()\<close>, the first selected shape or else the first selected
  connection; the fallback is modelled among the selected shapes only, and no handle of
  the examples below reaches it.
\<close>

definition handleSelectClick :: "point \<Rightarrow> target \<Rightarrow> bool \<Rightarrow> bool \<Rightarrow> editor \<Rightarrow> editor" where
  "handleSelectClick pt tg shiftKey ctrlKey ed =
     (let on_handle =
            (case closest_resize_handle tg of
               None \<Rightarrow> None
             | Some (handleId, shape_id) \<Rightarrow>
                 (let shape = (if truthy shape_id then resolve (st_diagram (model ed)) shape_id
                               else (case selectedShapes ed of [] \<Rightarrow> None | r # _ \<Rightarrow> Some r))
                  in case shape of
                       None \<Rightarrow> None
                     | Some r \<Rightarrow> if handleId \<noteq> [] then Some (r, handleId) else None))
      in case on_handle of
           Some (r, handleId) \<Rightarrow> startResize r handleId pt ed
         | None \<Rightarrow>
             (case closest_shape tg of
                Some shape_id \<Rightarrow>
                  (case getShape (model ed) shape_id of
                     Some shape \<Rightarrow>
                       startDrag pt
                         (if shiftKey \<or> ctrlKey then toggleShape shape ed
                          else selectShape shape False ed)
                   | None \<Rightarrow> ed)
              | None \<Rightarrow>
                  (case closest_connector tg of
                     Some connId \<Rightarrow>
                       (case getConnection (model ed) connId of
                          Some connection \<Rightarrow> selectConnection connection False ed
                        | None \<Rightarrow> ed)
                   | None \<Rightarrow> if \<not> shiftKey \<and> \<not> ctrlKey then clearSelection ed else ed)))"

definition handleDeleteClick :: "target \<Rightarrow> editor \<Rightarrow> editor" where
  "handleDeleteClick tg ed =
     (case closest_shape tg of
        Some shape_id \<Rightarrow>
          (case getShape (model ed) shape_id of
             Some shape \<Rightarrow> execute_new (new_RemoveShapeCommand shape) ed
           | None \<Rightarrow> ed)
      | None \<Rightarrow> ed)"

definition handleShapeToolClick :: "environment \<Rightarrow> plugin \<Rightarrow> point \<Rightarrow> editor \<Rightarrow> editor" where
  "handleShapeToolClick env plugin pt ed =
     (let snappedPoint = Point (snapToGrid (p_x pt) 20) (snapToGrid (p_y pt) 20)
      in case getShapeDefinitions plugin (currentTool (ctl ed)) of
           None \<Rightarrow> ed
         | Some shapeDef \<Rightarrow>
             (let shape = ShapeFactory_create env (currentTool (ctl ed))
                            (\<lparr> sd_id = None, sd_type = None, sd_diagramType = Some (plugin_id plugin),
                               sd_x = Some (p_x snappedPoint - defaultWidth shapeDef / 2),
                               sd_y = Some (p_y snappedPoint - defaultHeight shapeDef / 2),
                               sd_width = Some (defaultWidth shapeDef),
                               sd_height = Some (defaultHeight shapeDef),
                               sd_name = None, sd_stereotype = None, sd_properties = None,
                               sd_style = None, sd_minWidth = None, sd_minHeight = None,
                               sd_resizable = None \<rparr>)
              in case alloc_shape shape (model ed) of
                   (r, st) \<Rightarrow>
                     handleToolSelected ''select''
                       (selectShape r False (execute_new (AddShapeCommand r) (ed\<lparr>model := st\<rparr>)))))"

definition isValid :: "validation \<Rightarrow> bool" where
  "isValid validationResult =
     (case validationResult of Plain b \<Rightarrow> b | Object valid message \<Rightarrow> valid)"

definition handleConnectorToolClick :: "environment \<Rightarrow> plugin \<Rightarrow> target \<Rightarrow> editor \<Rightarrow> editor" where
  "handleConnectorToolClick env plugin tg ed =
     (case closest_shape tg of
        None \<Rightarrow> resetConnectionState ed
      | Some shape_id \<Rightarrow>
          (case getShape (model ed) shape_id of
             None \<Rightarrow> ed
           | Some shape \<Rightarrow>
               (case connectionSource (ctl ed) of
                  None \<Rightarrow>
                    ed\<lparr>ctl := (ctl ed)\<lparr>connectionSource := Some shape, state := ''connecting''\<rparr>\<rparr>
                | Some source \<Rightarrow>
                    if s_id (st_shapes (model ed) source) \<noteq> s_id (st_shapes (model ed) shape) then
                      (let ed1 =
                             (if isValid (validateConnection plugin (st_shapes (model ed) source)
                                            (st_shapes (model ed) shape) (currentTool (ctl ed)))
                              then
                                (let connection =
                                       (new_Connection (generateId env (st_next (model ed)))
                                          \<lparr> cd_id = None, cd_type = Some (currentTool (ctl ed)),
                                            cd_diagramType = Some (plugin_id plugin),
                                            cd_sourceId = Some (s_id (st_shapes (model ed) source)),
                                            cd_sourceAnchor = None,
                                            cd_targetId = Some (s_id (st_shapes (model ed) shape)),
                                            cd_targetAnchor = None, cd_waypoints = None,
                                            cd_label = None, cd_properties = None, cd_style = None,
                                            cd_source = None, cd_target = None \<rparr>)
                                       \<lparr>c_sourceShape := Some source, c_targetShape := Some shape\<rparr>
                                 in case alloc_conn connection (model ed) of
                                      (r, st) \<Rightarrow> execute_new (AddConnectionCommand r) (ed\<lparr>model := st\<rparr>))
                              else ed)
                       in resetConnectionState ed1)
                    else ed)))"

definition handleCanvasClicked ::
  "environment \<Rightarrow> point \<Rightarrow> target \<Rightarrow> bool \<Rightarrow> bool \<Rightarrow> editor \<Rightarrow> editor" where
  "handleCanvasClicked env pt tg shiftKey ctrlKey ed =
     (if currentTool (ctl ed) = ''select'' then handleSelectClick pt tg shiftKey ctrlKey ed
      else if currentTool (ctl ed) = ''delete'' then handleDeleteClick tg ed
      else
        (case getActive env of
           None \<Rightarrow> ed
         | Some plugin \<Rightarrow>
             if getShapeDefinitions plugin (currentTool (ctl ed)) \<noteq> None
             then handleShapeToolClick env plugin pt ed
             else if currentTool (ctl ed) \<in> set (getConnectorTypes plugin)
             then handleConnectorToolClick env plugin tg ed
             else ed))"

text \<open>The loop of the Delete key over the selected shapes.\<close>

fun remove_each :: "nat list \<Rightarrow> editor \<Rightarrow> editor" where
  "remove_each [] ed = ed"
| "remove_each (shape # rest) ed = remove_each rest (execute_new (new_RemoveShapeCommand shape) ed)"

definition handleKeyDown :: "string \<Rightarrow> bool \<Rightarrow> bool \<Rightarrow> bool \<Rightarrow> bool \<Rightarrow> editor \<Rightarrow> editor" where
  "handleKeyDown key ctrlKey metaKey shiftKey altKey ed =
     (let ed1 = (if key = ''Delete'' \<or> key = ''Backspace''
                 then clearSelection (remove_each (selectedShapes ed) ed) else ed);
          ed2 = (if key = ''z'' \<and> (ctrlKey \<or> metaKey)
                 then (case (if shiftKey then redo (history ed1, model ed1)
                             else undo (history ed1, model ed1)) of
                         (ok, cm, st) \<Rightarrow> ed1\<lparr>history := cm, model := st\<rparr>)
                 else ed1);
          ed3 = (if key = ''y'' \<and> (ctrlKey \<or> metaKey)
                 then (case redo (history ed2, model ed2) of
                         (ok, cm, st) \<Rightarrow> ed2\<lparr>history := cm, model := st\<rparr>)
                 else ed2);
          ed4 = (if key = ''Escape'' then clearSelection (resetState ed3) else ed3);
          ed5 = (if \<not> ctrlKey \<and> \<not> metaKey \<and> \<not> altKey then
                   (if key = ''v'' \<or> key = ''V'' then handleToolSelected ''select'' ed4
                    else if key = ''h'' \<or> key = ''H'' then handleToolSelected ''pan'' ed4
                    else ed4)
                 else ed4)
      in ed5)"

text \<open>The input events the controller listens to, and a sequence of them.\<close>

datatype event =
    ToolSelected string
  | CanvasClicked point target bool bool
  | CanvasMouseMove point
  | MouseUp
  | KeyDown string bool bool bool bool

fun handle :: "environment \<Rightarrow> event \<Rightarrow> editor \<Rightarrow> editor" where
  "handle env (ToolSelected toolId) ed = handleToolSelected toolId ed"
| "handle env (CanvasClicked pt tg shiftKey ctrlKey) ed = handleCanvasClicked env pt tg shiftKey ctrlKey ed"
| "handle env (CanvasMouseMove pt) ed = handleCanvasMouseMove pt ed"
| "handle env MouseUp ed = handleMouseUp ed"
| "handle env (KeyDown key ctrlKey metaKey shiftKey altKey) ed =
     handleKeyDown key ctrlKey metaKey shiftKey altKey ed"

fun handle_all :: "environment \<Rightarrow> event list \<Rightarrow> editor \<Rightarrow> editor" where
  "handle_all env [] ed = ed"
| "handle_all env (e # es) ed = handle_all env es (handle env e ed)"

text \<open>The gesture flags that are set: the claim allows at most one.\<close>

definition active_gestures :: "controller \<Rightarrow> string list" where
  "active_gestures c =
     (if isDragging c then [''dragging''] else [])
     @ (if isResizing c then [''resizing''] else [])
     @ (if connectionSource c \<noteq> None then [''connecting''] else [])"

section \<open>An example editing session\<close>

text \<open>
  Two shapes \<open>A\<close> at (0, 0, 100, 60) and \<open>B\<close> at (300, 0, 100, 60), a connection from \<open>A\<close>
  to \<open>B\<close> with \<^verbatim>\<open>auto\<close> anchors and no waypoints, and a few command objects. The shapes
  live at references 10 and 11, the connection at reference 20, the commands from
  reference 30 on. A third shape \<open>C\<close> of 30 by 30, the size the activity plugin registers
  for its initial node, lives at reference 12, and a connection from \<open>B\<close> to \<open>A\<close> at
  reference 21; neither is in the diagram at first.
\<close>

definition no_shape_data :: shape_data where
  "no_shape_data =
     \<lparr> sd_id = None, sd_type = None, sd_diagramType = None, sd_x = None, sd_y = None,
       sd_width = None, sd_height = None, sd_name = None, sd_stereotype = None,
       sd_properties = None, sd_style = None, sd_minWidth = None, sd_minHeight = None,
       sd_resizable = None \<rparr>"

definition no_conn_data :: conn_data where
  "no_conn_data =
     \<lparr> cd_id = None, cd_type = None, cd_diagramType = None, cd_sourceId = None,
       cd_sourceAnchor = None, cd_targetId = None, cd_targetAnchor = None,
       cd_waypoints = None, cd_label = None, cd_properties = None, cd_style = None,
       cd_source = None, cd_target = None \<rparr>"

definition no_diagram_data :: diagram_data where
  "no_diagram_data =
     \<lparr> dd_id = None, dd_type = None, dd_name = None, dd_created = None, dd_modified = None,
       dd_viewport = None, dd_metadata = None, dd_shapes = None, dd_connections = None \<rparr>"

definition shape_A :: shape where
  "shape_A = new_Shape ''shape-gen''
     (no_shape_data\<lparr>sd_id := Some ''A'', sd_x := Some 0, sd_y := Some 0,
                     sd_width := Some 100, sd_height := Some 60\<rparr>)"

definition shape_B :: shape where
  "shape_B = new_Shape ''shape-gen''
     (no_shape_data\<lparr>sd_id := Some ''B'', sd_x := Some 300, sd_y := Some 0,
                     sd_width := Some 100, sd_height := Some 60\<rparr>)"

definition shape_C :: shape where
  "shape_C = new_Shape ''shape-gen''
     (no_shape_data\<lparr>sd_id := Some ''C'', sd_type := Some ''actInitial'', sd_x := Some 150,
                     sd_y := Some 200, sd_width := Some 30, sd_height := Some 30\<rparr>)"

definition conn_BA :: connection where
  "conn_BA = new_Connection ''conn-gen''
     (no_conn_data\<lparr>cd_id := Some ''BA'', cd_sourceId := Some ''B'', cd_targetId := Some ''A''\<rparr>)"

definition conn_AB :: connection where
  "conn_AB = new_Connection ''conn-gen''
     (no_conn_data\<lparr>cd_id := Some ''AB'', cd_sourceId := Some ''A'', cd_targetId := Some ''B''\<rparr>)"

definition store0 :: store where
  "store0 =
     \<lparr> st_shapes = (\<lambda>_. shape_A)(11 := shape_B, 12 := shape_C),
       st_conns = (\<lambda>_. conn_AB)(21 := conn_BA),
       st_commands = (\<lambda>_. Command)(31 := AddShapeCommand 10, 32 := AddShapeCommand 11,
                       33 := AddConnectionCommand 20, 34 := new_RemoveShapeCommand 10),
       st_diagram = new_Diagram ''diagram-gen'' ''2024-01-01T00:00:00.000Z'' no_diagram_data,
       st_now = ''2024-01-01T00:00:00.000Z'',
       st_next = 40 \<rparr>"

definition store_AB :: store where
  "store_AB = addConnection 20 (addShape 11 (addShape 10 store0))"

definition store_ABC :: store where
  "store_ABC = addShape 12 store_AB"

text \<open>A history whose two stacks both end in command 30, a base command, which throws.\<close>

definition history0 :: CommandManager where
  "history0 = new_CommandManager\<lparr>undoStack := [31, 30], redoStack := [32, 30]\<rparr>"

text \<open>The history after the three commands that built \<open>store_AB\<close>.\<close>

definition history_AB :: CommandManager where
  "history_AB = new_CommandManager\<lparr>undoStack := [31, 32, 33]\<rparr>"

text \<open>
  Fifty-one calls: an \<^verbatim>\<open>execute\<close> of command 31, then \<^verbatim>\<open>addToHistory\<close> of the
  commands 100, ..., 149.
\<close>

definition fifty_one_calls :: "call list" where
  "fifty_one_calls = Execute 31 # map AddToHistory [100..<150]"

text \<open>
  The diagram with \<open>A\<close>, \<open>B\<close> and \<open>C\<close> and three connections: from \<open>A\<close> to \<open>B\<close>, from
  \<open>B\<close> to \<open>A\<close>, and from \<open>B\<close> to \<open>C\<close> (at reference 22), which does not touch \<open>A\<close>.
\<close>

definition conn_BC :: connection where
  "conn_BC = new_Connection ''conn-gen''
     (no_conn_data\<lparr>cd_id := Some ''BC'', cd_sourceId := Some ''B'', cd_targetId := Some ''C''\<rparr>)"

definition store_linked :: store where
  "store_linked =
     addConnection 22
       (addConnection 21 (store_ABC\<lparr>st_conns := (st_conns store_ABC)(22 := conn_BC)\<rparr>))"

text \<open>
  A shape of 100 by 60 at the origin whose own minimum width is 80, as the constructor and
  \<^verbatim>\<open>Shape.fromJSON\<close> build it from \<^verbatim>\<open>{ id: 'W', width: 100, height: 60, minWidth: 80 }\<close>,
  at reference 13; the diagram that holds it, and an editor with that shape selected.
\<close>

definition wide_shape :: shape where
  "wide_shape = new_Shape ''shape-gen''
     (no_shape_data\<lparr>sd_id := Some ''W'', sd_width := Some 100, sd_height := Some 60,
                     sd_minWidth := Some 80\<rparr>)"

definition store_W :: store where
  "store_W = addShape 13 (store0\<lparr>st_shapes := (st_shapes store0)(13 := wide_shape)\<rparr>)"

section \<open>Invariants used in the proofs\<close>

definition history_inv :: "CommandManager \<times> store \<Rightarrow> bool" where
  "history_inv s =
     (maxHistory (fst s) = 50 \<and> length (undoStack (fst s)) + length (redoStack (fst s)) \<le> 50)"

section \<open>A round trip and two gestures\<close>

text \<open>
  Serializing, restoring with \<^verbatim>\<open>Shape.fromJSON\<close> and \<^verbatim>\<open>Connection.fromJSON\<close> as the
  factories, and serializing again.
\<close>

definition roundtrip :: "store \<Rightarrow> diagram_data" where
  "roundtrip st =
     Diagram_toJSON
       (Diagram_fromJSON ''diagram-gen'' (Diagram_toJSON st)
          (Some (shape_fromJSON ''shape-gen'')) (Some (conn_fromJSON ''conn-gen'')) st)"

definition connections_of :: "diagram_data \<Rightarrow> conn_data list" where
  "connections_of j = (case dd_connections j of None \<Rightarrow> [] | Some cs \<Rightarrow> cs)"

definition shapes_of :: "diagram_data \<Rightarrow> shape_data list" where
  "shapes_of j = (case dd_shapes j of None \<Rightarrow> [] | Some ss \<Rightarrow> ss)"

text \<open>An editor on the diagram with \<open>A\<close>, \<open>B\<close> and their connection, with no plugin active.\<close>

definition editor0 :: editor where
  "editor0 =
     \<lparr> ctl = new_controller, selectedShapes = [], selectedConnections = [],
       history = new_CommandManager, model = store_AB \<rparr>"

definition env0 :: environment where
  "env0 =
     \<lparr> getActive = None,
       ShapeFactory_create = (\<lambda>t options. new_Shape ''shape-gen'' (options\<lparr>sd_type := Some t\<rparr>)),
       generateId = (\<lambda>n. ''conn-gen'') \<rparr>"

definition on_shape :: "string \<Rightarrow> target" where
  "on_shape sid =
     \<lparr> closest_resize_handle = None, closest_shape = Some sid, closest_connector = None \<rparr>"

definition on_handle :: "string \<Rightarrow> string \<Rightarrow> target" where
  "on_handle handleId sid =
     \<lparr> closest_resize_handle = Some (handleId, Some sid), closest_shape = None,
       closest_connector = None \<rparr>"

text \<open>
  On the diagram with \<open>W\<close>, selected: the user presses the mouse on the east handle of
  \<open>W\<close>, moves the pointer 60 to the left, and releases.
\<close>

definition editor_W :: editor where
  "editor_W =
     \<lparr> ctl = new_controller, selectedShapes = [13], selectedConnections = [],
       history = new_CommandManager, model = store_W \<rparr>"

definition resize_W :: "event list" where
  "resize_W =
     [CanvasClicked (Point 100 30) (on_handle ''e'' ''W'') False False,
      CanvasMouseMove (Point 40 30),
      MouseUp]"

text \<open>
  The user selects \<open>A\<close>, presses the mouse on its south-east handle, moves by (40, 30),
  presses Escape, releases the mouse, and presses the mouse on \<open>B\<close>.
\<close>

definition escape_during_resize :: "event list" where
  "escape_during_resize =
     [CanvasClicked (Point 50 30) (on_shape ''A'') False False,
      MouseUp,
      CanvasClicked (Point 100 60) (on_handle ''se'' ''A'') False False,
      CanvasMouseMove (Point 140 90),
      KeyDown ''Escape'' False False False False,
      MouseUp,
      CanvasClicked (Point 350 30) (on_shape ''B'') False False]"

text \<open>A press on \<open>A\<close> followed, with no release in between, by a press on its handle.\<close>

definition press_during_drag :: "event list" where
  "press_during_drag =
     [CanvasClicked (Point 50 30) (on_shape ''A'') False False,
      CanvasClicked (Point 100 60) (on_handle ''se'' ''A'') False False]"

section \<open>Facts about the example session\<close>

lemma write_back_same:
  "st_commands st = f \<Longrightarrow> f r = c \<Longrightarrow> st\<lparr>st_commands := f(r := c)\<rparr> = st"
  by auto

lemma store0_commands:
  "st_commands store0 30 = Command"
  "st_commands store0 31 = AddShapeCommand 10"
  "st_commands store0 32 = AddShapeCommand 11"
  "st_commands store0 33 = AddConnectionCommand 20"
  "st_commands store0 34 = RemoveShapeCommand 10 []"
  by (simp_all add: store0_def new_RemoveShapeCommand_def)

lemma st_commands_addShape: "st_commands (addShape r st) = st_commands st"
  by (simp add: addShape_def Let_def)

lemma st_commands_addConnection: "st_commands (addConnection r st) = st_commands st"
  by (simp add: addConnection_def Let_def)

lemma store_AB_commands: "st_commands store_AB = st_commands store0"
  by (simp add: store_AB_def st_commands_addShape st_commands_addConnection)

lemma base_execute_throws:
  "run_execute 30 store0 = Inl (Error ''Command.execute() must be implemented'', store0)"
  by (simp add: run_execute_def store0_commands write_back_same)

lemma base_undo_throws:
  "run_undo 30 store0 = Inl (Error ''Command.undo() must be implemented'', store0)"
  by (simp add: run_undo_def store0_commands)

lemma execute_31:
  "execute 31 (new_CommandManager, store0)
     = Inr (new_CommandManager\<lparr>undoStack := [31]\<rparr>, addShape 10 store0)"
  by (simp add: execute_def run_execute_def store0_commands limit_history_def
      new_CommandManager_def write_back_same st_commands_addShape)

section \<open>The history stacks\<close>

lemma nonempty_length: "xs \<noteq> [] \<Longrightarrow> Suc (length xs - Suc 0) = length xs"
  by (cases xs) simp_all

lemma step_history_inv: "history_inv s \<Longrightarrow> history_inv (step c s)"
proof (cases s)
  case (Pair cm st)
  assume inv: "history_inv s"
  show ?thesis
  proof (cases c)
    case (Execute r)
    with Pair inv show ?thesis
      by (auto simp: history_inv_def execute_def limit_history_def split: sum.splits)
  next
    case (AddToHistory r)
    with Pair inv show ?thesis
      by (auto simp: history_inv_def addToHistory_def limit_history_def)
  next
    case Undo
    with Pair inv show ?thesis
      by (auto simp: history_inv_def undo_def canUndo_def Let_def split: sum.splits
               dest: nonempty_length)
  next
    case Redo
    with Pair inv show ?thesis
      by (auto simp: history_inv_def redo_def canRedo_def Let_def split: sum.splits
               dest: nonempty_length)
  next
    case Clear
    with Pair inv show ?thesis
      by (auto simp: history_inv_def clear_def)
  qed
qed

lemma run_history_inv: "history_inv s \<Longrightarrow> history_inv (run cs s)"
  by (induction cs arbitrary: s) (simp_all add: step_history_inv)

lemma new_history_inv: "history_inv (new_CommandManager, st)"
  by (simp add: history_inv_def new_CommandManager_def)

lemma shift_is_drop:
  assumes "length xs \<le> Suc m"
  shows "(if length xs > m then tl xs else xs) = drop (length xs - m) xs"
proof (cases "length xs > m")
  case True
  with assms have "length xs - m = Suc 0" by simp
  then show ?thesis using True by (simp add: drop_Suc)
next
  case False
  then show ?thesis by simp
qed

lemma push_limit:
  assumes "length (undoStack cm) \<le> maxHistory cm"
  shows "undoStack (limit_history (cm\<lparr>undoStack := undoStack cm @ [r], redoStack := []\<rparr>))
           = drop (length (undoStack cm) + 1 - maxHistory cm) (undoStack cm @ [r])"
proof -
  let ?xs = "undoStack cm @ [r]"
  have "length ?xs \<le> Suc (maxHistory cm)" using assms by simp
  from shift_is_drop[OF this]
  have "(if length ?xs > maxHistory cm then tl ?xs else ?xs) = drop (length ?xs - maxHistory cm) ?xs" .
  moreover have "undoStack (limit_history (cm\<lparr>undoStack := ?xs, redoStack := []\<rparr>))
                   = (if length ?xs > maxHistory cm then tl ?xs else ?xs)"
    by (simp add: limit_history_def)
  moreover have "length ?xs = length (undoStack cm) + 1" by simp
  ultimately show ?thesis by (simp only:)
qed

lemma drop_app_le: "k \<le> length xs \<Longrightarrow> drop k xs @ ys = drop k (xs @ ys)"
  by simp

lemma drop_step:
  assumes "length u \<le> m"
  shows "drop (length (drop (length u + 1 - m) (u @ [r])) + n - m) (drop (length u + 1 - m) (u @ [r]) @ rest)
           = drop (length u + Suc n - m) (u @ r # rest)"
proof -
  define k where "k = length u + 1 - m"
  have k: "k \<le> length (u @ [r])" by (simp add: k_def)
  then have app: "drop k (u @ [r]) @ rest = drop k ((u @ [r]) @ rest)" by (rule drop_app_le)
  have ar: "length (drop k (u @ [r])) + n - m + k = length u + Suc n - m"
    using assms by (simp add: k_def)
  have "drop (length (drop k (u @ [r])) + n - m) (drop k (u @ [r]) @ rest)
          = drop (length (drop k (u @ [r])) + n - m + k) ((u @ [r]) @ rest)"
    by (simp only: app drop_drop)
  also have "\<dots> = drop (length u + Suc n - m) (u @ r # rest)"
    by (simp only: ar) simp
  finally show ?thesis by (simp only: k_def)
qed

lemma recorded_undoStack:
  "recorded cs s \<Longrightarrow> length (undoStack (fst s)) \<le> maxHistory (fst s) \<Longrightarrow>
     undoStack (fst (run cs s))
       = drop (length (undoStack (fst s)) + length cs - maxHistory (fst s))
           (undoStack (fst s) @ List.map_filter command_of cs)"
proof (induction cs arbitrary: s)
  case Nil
  then show ?case by (simp add: List.map_filter_simps)
next
  case (Cons c cs)
  obtain cm st where s: "s = (cm, st)" by (cases s)
  let ?u = "undoStack cm" and ?m = "maxHistory cm"
  from Cons.prems(2) s have le: "length ?u \<le> ?m" by simp
  show ?case
  proof (cases c)
    case (Execute r)
    with Cons.prems(1) s obtain st' where ex: "run_execute r st = Inr st'"
      by (auto simp: execute_def split: sum.splits)
    let ?cm' = "limit_history (cm\<lparr>undoStack := ?u @ [r], redoStack := []\<rparr>)"
    have st: "step c s = (?cm', st')" using Execute s ex by (simp add: execute_def)
    have rec: "recorded cs (?cm', st')" using Cons.prems(1) Execute s ex by (simp add: execute_def)
    have m': "maxHistory ?cm' = ?m" by (simp add: limit_history_def)
    have u': "undoStack ?cm' = drop (length ?u + 1 - ?m) (?u @ [r])"
      using le by (rule push_limit)
    have len': "length (undoStack ?cm') \<le> maxHistory ?cm'" using le u' m' by simp
    have "undoStack (fst (run cs (?cm', st')))
            = drop (length (undoStack ?cm') + length cs - ?m) (undoStack ?cm' @ List.map_filter command_of cs)"
      using Cons.IH[OF rec] len' m' by simp
    also have "\<dots> = drop (length ?u + length (c # cs) - ?m) (?u @ List.map_filter command_of (c # cs))"
      using drop_step[OF le, of r "length cs" "List.map_filter command_of cs"] u' Execute
      by (simp add: List.map_filter_simps del: drop_append)
    finally show ?thesis using st s by simp
  next
    case (AddToHistory r)
    let ?cm' = "limit_history (cm\<lparr>undoStack := ?u @ [r], redoStack := []\<rparr>)"
    have st: "step c s = (?cm', st)" using AddToHistory s by (simp add: addToHistory_def)
    have rec: "recorded cs (?cm', st)" using Cons.prems(1) AddToHistory s by (simp add: addToHistory_def)
    have m': "maxHistory ?cm' = ?m" by (simp add: limit_history_def)
    have u': "undoStack ?cm' = drop (length ?u + 1 - ?m) (?u @ [r])"
      using le by (rule push_limit)
    have len': "length (undoStack ?cm') \<le> maxHistory ?cm'" using le u' m' by simp
    have "undoStack (fst (run cs (?cm', st)))
            = drop (length (undoStack ?cm') + length cs - ?m) (undoStack ?cm' @ List.map_filter command_of cs)"
      using Cons.IH[OF rec] len' m' by simp
    also have "\<dots> = drop (length ?u + length (c # cs) - ?m) (?u @ List.map_filter command_of (c # cs))"
      using drop_step[OF le, of r "length cs" "List.map_filter command_of cs"] u' AddToHistory
      by (simp add: List.map_filter_simps del: drop_append)
    finally show ?thesis using st s by simp
  next
    case Undo with Cons.prems(1) show ?thesis by simp
  next
    case Redo with Cons.prems(1) show ?thesis by simp
  next
    case Clear with Cons.prems(1) show ?thesis by simp
  qed
qed

lemma recorded_length: "recorded cs s \<Longrightarrow> length (List.map_filter command_of cs) = length cs"
proof (induction cs arbitrary: s)
  case Nil then show ?case by (simp add: List.map_filter_simps)
next
  case (Cons c cs)
  then show ?case
    by (cases c) (auto simp: List.map_filter_simps split: sum.splits)
qed

lemma recorded_addToHistory: "recorded (map AddToHistory xs) s"
  by (induction xs arbitrary: s) auto

lemma commands_of_addToHistory: "List.map_filter command_of (map AddToHistory xs) = xs"
  by (induction xs) (simp_all add: List.map_filter_simps)

text \<open>
  Claim C4. When \<^verbatim>\<open>command.execute()\<close> throws inside \<^verbatim>\<open>CommandManager.execute\<close>, the
  exception reaches the caller and both stacks are as before the call. When the popped
  command's \<^verbatim>\<open>undo()\<close> throws inside \<^verbatim>\<open>undo\<close>, or its \<^verbatim>\<open>execute()\<close> inside \<^verbatim>\<open>redo\<close>, the
  command is pushed back on the stack it came from, both stacks are as before, and the
  method returns \<^verbatim>\<open>false\<close>.
\<close>

theorem failed_command_keeps_history:
  "(run_execute c st = Inl (e1, st1) \<longrightarrow> execute c (cm, st) = Inl (e1, cm, st1))
   \<and> (canUndo cm \<and> run_undo (last (undoStack cm)) st = Inl (e2, st2)
        \<longrightarrow> undo (cm, st) = (False, cm, st2))
   \<and> (canRedo cm \<and> run_execute (last (redoStack cm)) st = Inl (e3, st3)
        \<longrightarrow> redo (cm, st) = (False, cm, st3))"
  by (simp add: execute_def undo_def redo_def canUndo_def canRedo_def)

theorem failed_command_keeps_history_witness:
  "run_execute 30 store0 = Inl (Error ''Command.execute() must be implemented'', store0)
   \<and> execute 30 (history0, store0)
       = Inl (Error ''Command.execute() must be implemented'', history0, store0)
   \<and> canUndo history0
   \<and> run_undo (last (undoStack history0)) store0
       = Inl (Error ''Command.undo() must be implemented'', store0)
   \<and> undo (history0, store0) = (False, history0, store0)
   \<and> canRedo history0
   \<and> run_execute (last (redoStack history0)) store0
       = Inl (Error ''Command.execute() must be implemented'', store0)
   \<and> redo (history0, store0) = (False, history0, store0)"
proof -
  have h1: "run_execute 30 store0 = Inl (Error ''Command.execute() must be implemented'', store0)"
    by (rule base_execute_throws)
  have h2: "canUndo history0 \<and> run_undo (last (undoStack history0)) store0
              = Inl (Error ''Command.undo() must be implemented'', store0)"
    by (simp add: history0_def canUndo_def base_undo_throws)
  have h3: "canRedo history0 \<and> run_execute (last (redoStack history0)) store0
              = Inl (Error ''Command.execute() must be implemented'', store0)"
    by (simp add: history0_def canRedo_def base_execute_throws)
  from failed_command_keeps_history
         [of 30 store0 "Error ''Command.execute() must be implemented''" store0 history0
             "Error ''Command.undo() must be implemented''" store0
             "Error ''Command.execute() must be implemented''" store0]
       h1 h2 h3
  show ?thesis by blast
qed

text \<open>
  Claim C5. Right after \<^verbatim>\<open>execute(C)\<close> returns normally the redo stack is empty; right
  after \<^verbatim>\<open>undo()\<close> returns \<^verbatim>\<open>true\<close> the command that was undone, the former top of the
  undo stack, is the top of the redo stack; \<^verbatim>\<open>undo()\<close> on an empty undo stack returns
  \<^verbatim>\<open>false\<close> and changes neither stack.
\<close>

theorem history_exclusivity:
  "(execute c (cm, st) = Inr s' \<longrightarrow> redoStack (fst s') = [])
   \<and> (fst (undo (cm, st))
        \<longrightarrow> canUndo cm
            \<and> last (redoStack (fst (snd (undo (cm, st))))) = last (undoStack cm)
            \<and> redoStack (fst (snd (undo (cm, st)))) = redoStack cm @ [last (undoStack cm)]
            \<and> undoStack (fst (snd (undo (cm, st)))) = butlast (undoStack cm))
   \<and> (undoStack cm = [] \<longrightarrow> undo (cm, st) = (False, cm, st))"
  by (auto simp add: execute_def undo_def canUndo_def limit_history_def Let_def
           split: sum.splits if_splits)

theorem history_exclusivity_witness:
  "execute 31 (new_CommandManager, store0)
     = Inr (new_CommandManager\<lparr>undoStack := [31]\<rparr>, addShape 10 store0)
   \<and> redoStack (fst (new_CommandManager\<lparr>undoStack := [31]\<rparr>, addShape 10 store0)) = []
   \<and> fst (undo (history_AB, store_AB))
   \<and> last (redoStack (fst (snd (undo (history_AB, store_AB))))) = 33
   \<and> undoStack (fst (snd (undo (history_AB, store_AB)))) = [31, 32]
   \<and> undoStack new_CommandManager = []
   \<and> undo (new_CommandManager, store0) = (False, new_CommandManager, store0)"
proof -
  have h1: "execute 31 (new_CommandManager, store0)
              = Inr (new_CommandManager\<lparr>undoStack := [31]\<rparr>, addShape 10 store0)"
    by (rule execute_31)
  have h2: "fst (undo (history_AB, store_AB))"
    by (simp add: undo_def canUndo_def history_AB_def new_CommandManager_def run_undo_def
        store_AB_commands store0_commands Let_def)
  have h3: "undoStack new_CommandManager = []"
    by (simp add: new_CommandManager_def)
  have u: "last (undoStack history_AB) = 33" "butlast (undoStack history_AB) = [31, 32]"
    by (simp_all add: history_AB_def)
  from history_exclusivity
         [of 31 new_CommandManager store0
             "(new_CommandManager\<lparr>undoStack := [31]\<rparr>, addShape 10 store0)"]
       h1
  have a: "redoStack (fst (new_CommandManager\<lparr>undoStack := [31]\<rparr>, addShape 10 store0)) = []"
    by blast
  from history_exclusivity [of 31 history_AB store_AB "(history_AB, store_AB)"] h2 u
  have b: "last (redoStack (fst (snd (undo (history_AB, store_AB))))) = 33
           \<and> undoStack (fst (snd (undo (history_AB, store_AB)))) = [31, 32]"
    by simp
  from history_exclusivity [of 31 new_CommandManager store0 "(new_CommandManager, store0)"] h3
  have c: "undo (new_CommandManager, store0) = (False, new_CommandManager, store0)"
    by blast
  from h1 a h2 b h3 c show ?thesis by blast
qed

text \<open>
  Claim C6. Whatever calls of \<^verbatim>\<open>execute\<close>, \<^verbatim>\<open>addToHistory\<close>, \<^verbatim>\<open>undo\<close>, \<^verbatim>\<open>redo\<close> and
  \<^verbatim>\<open>clear\<close> a new manager has received, in any order and with commands that may throw,
  its undo stack holds at most 50 commands. If then more than 50 commands are recorded
  in a row, each by an \<^verbatim>\<open>execute\<close> that returns normally or by \<^verbatim>\<open>addToHistory\<close>, the undo
  stack holds exactly 50 commands: the 50 recorded last, in order, the older ones having
  left from the bottom.
\<close>

theorem undo_stack_capacity:
  "length (undoStack (fst (run calls (new_CommandManager, st)))) \<le> 50
   \<and> (recorded cs (run calls (new_CommandManager, st)) \<and> length cs > 50 \<longrightarrow>
        undoStack (fst (run cs (run calls (new_CommandManager, st))))
          = drop (length cs - 50) (List.map_filter command_of cs)
        \<and> length (undoStack (fst (run cs (run calls (new_CommandManager, st))))) = 50)"
proof -
  let ?s = "run calls (new_CommandManager, st)"
  have inv: "history_inv ?s" by (rule run_history_inv[OF new_history_inv])
  then have m: "maxHistory (fst ?s) = 50" and le: "length (undoStack (fst ?s)) \<le> 50"
    by (simp_all add: history_inv_def)
  {
    assume rec: "recorded cs ?s" and n: "length cs > 50"
    have len: "length (List.map_filter command_of cs) = length cs" by (rule recorded_length[OF rec])
    have "undoStack (fst (run cs ?s))
            = drop (length (undoStack (fst ?s)) + length cs - 50)
                (undoStack (fst ?s) @ List.map_filter command_of cs)"
      using recorded_undoStack[OF rec] le m by simp
    also have "\<dots> = drop (length cs - 50) (List.map_filter command_of cs)"
      using n by simp
    finally have eq: "undoStack (fst (run cs ?s)) = drop (length cs - 50) (List.map_filter command_of cs)" .
    have "length (undoStack (fst (run cs ?s))) = 50" using eq len n by simp
    note eq this
  }
  with le show ?thesis by blast
qed

theorem undo_stack_capacity_witness:
  "recorded fifty_one_calls (run [Execute 30, Undo] (new_CommandManager, store0))
   \<and> length fifty_one_calls > 50
   \<and> undoStack (fst (run fifty_one_calls (run [Execute 30, Undo] (new_CommandManager, store0))))
       = [100..<150]
   \<and> length (undoStack (fst (run fifty_one_calls
                (run [Execute 30, Undo] (new_CommandManager, store0))))) = 50"
proof -
  have s: "run [Execute 30, Undo] (new_CommandManager, store0) = (new_CommandManager, store0)"
    by (simp add: execute_def base_execute_throws undo_def canUndo_def new_CommandManager_def)
  have "recorded fifty_one_calls (new_CommandManager, store0)"
    by (simp add: fifty_one_calls_def execute_31 recorded_addToHistory)
  then have h1: "recorded fifty_one_calls (run [Execute 30, Undo] (new_CommandManager, store0))"
    by (simp only: s)
  have h2: "length fifty_one_calls > 50"
    by (simp add: fifty_one_calls_def)
  have d: "drop (length fifty_one_calls - 50) (List.map_filter command_of fifty_one_calls)
             = [100..<150]"
    by (simp add: fifty_one_calls_def List.map_filter_simps commands_of_addToHistory)
  from undo_stack_capacity [of "[Execute 30, Undo]" store0 fifty_one_calls] h1 h2
  have "undoStack (fst (run fifty_one_calls (run [Execute 30, Undo] (new_CommandManager, store0))))
          = drop (length fifty_one_calls - 50) (List.map_filter command_of fifty_one_calls)
        \<and> length (undoStack (fst (run fifty_one_calls
                (run [Execute 30, Undo] (new_CommandManager, store0))))) = 50"
    by blast
  with h1 h2 show ?thesis by (simp only: d) simp
qed

section \<open>Resizing\<close>

lemma store_W_shape:
  "st_shapes store_W 13 = wide_shape\<lparr>s_diagramType := ''sequence''\<rparr>"
  "d_shapes (st_diagram store_W) = [(''W'', 13)]"
  "st_next store_W = 40"
  by (simp_all add: store_W_def store0_def addShape_def Let_def Map_set_def wide_shape_def
      new_Shape_def no_shape_data_def or_str_def new_Diagram_def no_diagram_data_def)

lemma W_bounds:
  "bounds_of (st_shapes store_W 13) = \<lparr>b_x = 0, b_y = 0, b_width = 100, b_height = 60\<rparr>"
  "s_minWidth (st_shapes store_W 13) = 80"
  "s_minHeight (st_shapes store_W 13) = 30"
  by (simp_all add: store_W_shape bounds_of_def wide_shape_def new_Shape_def no_shape_data_def
      or_num_def)

lemma calc_e:
  "calculateNewBounds \<lparr>b_x = 0, b_y = 0, b_width = 100, b_height = 60\<rparr> ''e'' (- 60) 0
     = \<lparr>b_x = 0, b_y = 0, b_width = 40, b_height = 60\<rparr>"
  "rhm_calculateNewBounds \<lparr>b_x = 0, b_y = 0, b_width = 100, b_height = 60\<rparr> ''e'' (- 60) 0
     = \<lparr>b_x = 0, b_y = 0, b_width = 40, b_height = 60\<rparr>"
  by (simp_all add: calculateNewBounds_def rhm_calculateNewBounds_def Let_def str_includes_def)

text \<open>
  Claim C3 does not hold of the code. Both \<^verbatim>\<open>calculateNewBounds\<close> functions clamp against
  the literals 40 and 30 and never read the \<^verbatim>\<open>minWidth\<close> and \<^verbatim>\<open>minHeight\<close> of the shape
  being resized, which \<^verbatim>\<open>Shape.setSize\<close> enforces. The shape \<open>W\<close> is 100 by 60 with
  \<^verbatim>\<open>minWidth\<close> 80 and \<^verbatim>\<open>minHeight\<close> 30, so its bounds satisfy the minimum. Dragging its
  east handle 60 to the left gives bounds of width 40, in both functions; after the
  gesture the shape is 40 wide, below its own minimum of 80, and the history holds the
  \<^verbatim>\<open>ResizeShapeCommand\<close> with these bounds. \<^verbatim>\<open>setSize\<close> with the same arguments gives width
  80, and so does the recorded command when it is executed again.
\<close>

theorem resize_ignores_shape_minimum:
  "bounds_of (st_shapes (model editor_W) 13) = \<lparr>b_x = 0, b_y = 0, b_width = 100, b_height = 60\<rparr>
   \<and> s_minWidth (st_shapes (model editor_W) 13) = 80
   \<and> s_minHeight (st_shapes (model editor_W) 13) = 30
   \<and> b_width (calculateNewBounds (bounds_of (st_shapes (model editor_W) 13)) ''e'' (- 60) 0) = 40
   \<and> b_width (rhm_calculateNewBounds (bounds_of (st_shapes (model editor_W) 13)) ''e'' (- 60) 0) = 40
   \<and> s_width (st_shapes (model (handle_all env0 resize_W editor_W)) 13) = 40
   \<and> s_minWidth (st_shapes (model (handle_all env0 resize_W editor_W)) 13) = 80
   \<and> isResizing (ctl (handle_all env0 resize_W editor_W)) = False
   \<and> undoStack (history (handle_all env0 resize_W editor_W)) = [40]
   \<and> st_commands (model (handle_all env0 resize_W editor_W)) 40
       = ResizeShapeCommand 13 \<lparr>b_x = 0, b_y = 0, b_width = 100, b_height = 60\<rparr>
           \<lparr>b_x = 0, b_y = 0, b_width = 40, b_height = 60\<rparr>
   \<and> s_width (setSize 40 60 (st_shapes (model editor_W) 13)) = 80
   \<and> (case command_execute
             (ResizeShapeCommand 13 \<lparr>b_x = 0, b_y = 0, b_width = 100, b_height = 60\<rparr>
                \<lparr>b_x = 0, b_y = 0, b_width = 40, b_height = 60\<rparr>) (model editor_W) of
         Inl _ \<Rightarrow> False
       | Inr (c', st') \<Rightarrow> s_width (st_shapes st' 13) = 80)"
proof -
  let ?b0 = "\<lparr>b_x = 0, b_y = 0, b_width = 100, b_height = 60\<rparr>"
  let ?b1 = "\<lparr>b_x = 0, b_y = 0, b_width = 40, b_height = 60\<rparr>"
  let ?resizing = "new_controller\<lparr>isResizing := True, state := ''resizing'',
                    resizeHandle := Some ''e'', resizeStartBounds := Some ?b0,
                    dragStartPoint := Some (Point 100 30), resizingShape := Some 13\<rparr>"
  let ?resized = "update_shape 13 (\<lambda>s. s\<lparr>s_x := 0, s_y := 0, s_width := 40, s_height := 60\<rparr>) store_W"
  let ?e1 = "editor_W\<lparr>ctl := ?resizing\<rparr>"
  let ?e2 = "editor_W\<lparr>ctl := ?resizing, model := ?resized\<rparr>"
  let ?e3 = "editor_W\<lparr>ctl := new_controller\<lparr>dragStartPoint := Some (Point 100 30)\<rparr>,
                      history := new_CommandManager\<lparr>undoStack := [40]\<rparr>,
                      model := ?resized\<lparr>st_commands := (st_commands ?resized)
                                           (40 := ResizeShapeCommand 13 ?b0 ?b1),
                                        st_next := 41\<rparr>\<rparr>"
  have m: "model editor_W = store_W" by (simp add: editor_W_def)
  have s1: "handle env0 (CanvasClicked (Point 100 30) (on_handle ''e'' ''W'') False False) editor_W = ?e1"
    by (simp add: editor_W_def handleCanvasClicked_def handleSelectClick_def on_handle_def
        new_controller_def truthy_def resolve_def Map_get_def store_W_shape(2) startResize_def
        W_bounds Let_def)
  have s2: "handle env0 (CanvasMouseMove (Point 40 30)) ?e1 = ?e2"
    by (simp add: editor_W_def handleCanvasMouseMove_def doResize_def new_controller_def
        calc_e Let_def)
  have nb: "bounds_of (st_shapes ?resized 13) = ?b1"
    by (simp add: update_shape_def bounds_of_def)
  have nx: "st_next ?resized = 40"
    by (simp add: update_shape_def store_W_shape(3))
  have s3: "handle env0 MouseUp ?e2 = ?e3"
    by (simp add: editor_W_def handleMouseUp_def endResize_def new_controller_def nb nx
        alloc_command_def addToHistory_def new_CommandManager_def limit_history_def Let_def)
  have run: "handle_all env0 resize_W editor_W = ?e3"
    unfolding resize_W_def handle_all.simps s1 s2 s3 ..
  have w: "s_width (st_shapes (model ?e3) 13) = 40 \<and> s_minWidth (st_shapes (model ?e3) 13) = 80
           \<and> isResizing (ctl ?e3) = False \<and> undoStack (history ?e3) = [40]
           \<and> st_commands (model ?e3) 40 = ResizeShapeCommand 13 ?b0 ?b1"
    by (simp add: update_shape_def W_bounds new_controller_def)
  have sib: "s_width (setSize 40 60 (st_shapes store_W 13)) = 80"
    by (simp add: setSize_def W_bounds)
  have redo: "case command_execute (ResizeShapeCommand 13 ?b0 ?b1) store_W of
                Inl _ \<Rightarrow> False
              | Inr (c', st') \<Rightarrow> s_width (st_shapes st' 13) = 80"
    by (simp add: update_shape_def setSize_def setPosition_def W_bounds)
  from w sib redo show ?thesis
    by (simp only: run m W_bounds calc_e) simp
qed

section \<open>Connection end points\<close>

lemmas example_defs = store0_def store_AB_def store_ABC_def shape_A_def shape_B_def shape_C_def
  conn_AB_def conn_BA_def
  no_shape_data_def no_conn_data_def no_diagram_data_def new_Shape_def new_Connection_def
  new_Diagram_def or_str_def or_num_def or_null_def truthy_def spread_def

lemma store_AB_connection:
  "c_sourceShape (st_conns store_AB 20) = Some 10 \<and> c_targetShape (st_conns store_AB 20) = Some 11
   \<and> anchor (c_source (st_conns store_AB 20)) = ''auto''
   \<and> anchor (c_target (st_conns store_AB 20)) = ''auto''
   \<and> c_waypoints (st_conns store_AB 20) = []"
  by (simp add: example_defs addShape_def addConnection_def Let_def Map_set_def Map_get_def
      resolve_def)

lemma store_AB_bounds:
  "getBounds (st_shapes store_AB 10) = Rectangle 0 0 100 60
   \<and> getBounds (st_shapes store_AB 11) = Rectangle 300 0 100 60"
  by (simp add: example_defs addShape_def addConnection_def Let_def getBounds_def)

lemma store_AB_getConnection: "getConnection store_AB ''AB'' = Some 20"
  by (simp add: getConnection_def Map_get_def example_defs addShape_def addConnection_def
      Let_def Map_set_def)

lemma sqrt_90900: "(250::real) < sqrt 90900"
  by (rule real_less_rsqrt) simp

lemma nearest_of_A:
  "rect_getNearestConnectionPoint (Rectangle 0 0 100 60) (center (Rectangle 300 0 100 60))
     = (''right'', Some (Point 100 30))"
  by (simp add: rect_getNearestConnectionPoint_def Let_def getConnectionPoint_def center_def
      centerX_def centerY_def rect_left_def rect_right_def rect_top_def rect_bottom_def
      distanceTo_def sqrt_90900 less_imp_not_less[OF sqrt_90900])

lemma nearest_of_B:
  "rect_getNearestConnectionPoint (Rectangle 300 0 100 60) (center (Rectangle 0 0 100 60))
     = (''left'', Some (Point 300 30))"
  by (simp add: rect_getNearestConnectionPoint_def Let_def getConnectionPoint_def center_def
      centerX_def centerY_def rect_left_def rect_right_def rect_top_def rect_bottom_def
      distanceTo_def sqrt_90900 less_imp_not_less[OF sqrt_90900])

lemma side_points_AB:
  "getConnectionPoints (st_shapes store_AB 10) ''right'' = Some (Point 100 30)
   \<and> getConnectionPoints (st_shapes store_AB 11) ''left'' = Some (Point 300 30)"
  by (simp add: getConnectionPoints_def store_AB_bounds Let_def getConnectionPoint_def
      centerX_def centerY_def rect_left_def rect_right_def)

text \<open>
  Claim C10. With shape \<open>A\<close> at (0, 0, 100, 60) and shape \<open>B\<close> at (300, 0, 100, 60) added
  to a diagram and a connection from \<open>A\<close> to \<open>B\<close> with both anchors \<^verbatim>\<open>auto\<close> and no
  waypoints added after them, \<^verbatim>\<open>getStartPoint()\<close> is (100, 30), the right-side connection
  point of \<open>A\<close>, and \<^verbatim>\<open>getEndPoint()\<close> is (300, 30), the left-side connection point of \<open>B\<close>:
  of the four side points of each shape, the one nearest to the centre of the other.
\<close>

theorem add_and_connect:
  "getConnection store_AB ''AB'' = Some 20
   \<and> getStartPoint store_AB (st_conns store_AB 20) = Some (Point 100 30)
   \<and> getStartPoint store_AB (st_conns store_AB 20)
       = getConnectionPoints (st_shapes store_AB 10) ''right''
   \<and> getEndPoint store_AB (st_conns store_AB 20) = Some (Point 300 30)
   \<and> getEndPoint store_AB (st_conns store_AB 20)
       = getConnectionPoints (st_shapes store_AB 11) ''left''
   \<and> getNearestConnectionPoint (st_shapes store_AB 10) (center (getBounds (st_shapes store_AB 11)))
       = (''right'', Some (Point 100 30))
   \<and> getNearestConnectionPoint (st_shapes store_AB 11) (center (getBounds (st_shapes store_AB 10)))
       = (''left'', Some (Point 300 30))"
  by (simp add: getStartPoint_def getEndPoint_def getNearestConnectionPoint_def
      store_AB_connection store_AB_bounds nearest_of_A nearest_of_B store_AB_getConnection
      side_points_AB)

section \<open>End points of stored connections\<close>

lemma set_update_subset: "set (AList.update k v al) \<subseteq> insert (k, v) (set al)"
  by (induction al) auto

lemma in_set_update: "(k, v) \<in> set (AList.update k v al)"
  by (induction al) auto

lemma addConnection_heap_other:
  "c_source (st_conns (addConnection r st) q) = c_source (st_conns st q)
   \<and> c_target (st_conns (addConnection r st) q) = c_target (st_conns st q)
   \<and> c_id (st_conns (addConnection r st) q) = c_id (st_conns st q)"
  by (simp add: addConnection_def Let_def)

lemma addConnection_shapes:
  "d_shapes (st_diagram (addConnection r st)) = d_shapes (st_diagram st)"
  "st_shapes (addConnection r st) = st_shapes st"
  by (simp_all add: addConnection_def Let_def)

lemma addConnection_connections:
  "d_connections (st_diagram (addConnection r st))
     = Map_set (c_id (st_conns st r)) r (d_connections (st_diagram st))"
  by (simp add: addConnection_def Let_def)

lemma connection_valid_addConnection:
  "connection_valid (addConnection r st) q = connection_valid st q"
  by (simp add: connection_valid_def endpoint_present_def getShape_def addConnection_heap_other
      addConnection_shapes split: option.splits)

lemma addConnection_stored:
  "getConnection (addConnection r st) (c_id (st_conns st r)) = Some r"
  by (simp add: getConnection_def addConnection_connections Map_get_def Map_set_def update_conv')

lemma addConnection_links:
  "c_sourceShape (st_conns (addConnection r st) r)
     = (if truthy (shapeId (c_source (st_conns st r)))
        then resolve (st_diagram st) (shapeId (c_source (st_conns st r)))
        else c_sourceShape (st_conns st r))
   \<and> c_targetShape (st_conns (addConnection r st) r)
     = (if truthy (shapeId (c_target (st_conns st r)))
        then resolve (st_diagram st) (shapeId (c_target (st_conns st r)))
        else c_targetShape (st_conns st r))"
  by (simp add: addConnection_def Let_def)

lemma addConnection_invariant:
  assumes "endpoints_invariant st"
  shows "endpoints_invariant (addConnection r st) = connection_valid st r"
proof
  assume "endpoints_invariant (addConnection r st)"
  moreover have "(c_id (st_conns st r), r) \<in> set (d_connections (st_diagram (addConnection r st)))"
    by (simp add: addConnection_connections Map_set_def in_set_update)
  ultimately have "connection_valid (addConnection r st) r"
    by (auto simp: endpoints_invariant_def list_all_iff)
  then show "connection_valid st r" by (simp add: connection_valid_addConnection)
next
  assume v: "connection_valid st r"
  show "endpoints_invariant (addConnection r st)"
    unfolding endpoints_invariant_def list_all_iff
  proof (intro ballI)
    fix p assume "p \<in> set (d_connections (st_diagram (addConnection r st)))"
    then have "p = (c_id (st_conns st r), r) \<or> p \<in> set (d_connections (st_diagram st))"
      using set_update_subset[of "c_id (st_conns st r)" r "d_connections (st_diagram st)"]
      by (auto simp: addConnection_connections Map_set_def)
    then show "case p of (k, q) \<Rightarrow> connection_valid (addConnection r st) q"
      using v assms
      by (auto simp: connection_valid_addConnection endpoints_invariant_def list_all_iff)
  qed
qed

text \<open>
  Claim C8, as the code has it. \<^verbatim>\<open>addConnection\<close> files the connection under its id in
  every case and sets \<^verbatim>\<open>sourceShape\<close> and \<^verbatim>\<open>targetShape\<close> to what the end ids resolve to in
  the shape collection (nothing when the shape is absent; an end without id keeps its old
  reference). On a diagram whose stored connections all have both ends in the shape
  collection, the collection has that property again after \<^verbatim>\<open>addConnection\<close> exactly when both
  ends of the added connection are in the shape collection.
\<close>

theorem addConnection_endpoints:
  "getConnection (addConnection r st) (c_id (st_conns st r)) = Some r
   \<and> c_sourceShape (st_conns (addConnection r st) r)
       = (if truthy (shapeId (c_source (st_conns st r)))
          then resolve (st_diagram st) (shapeId (c_source (st_conns st r)))
          else c_sourceShape (st_conns st r))
   \<and> c_targetShape (st_conns (addConnection r st) r)
       = (if truthy (shapeId (c_target (st_conns st r)))
          then resolve (st_diagram st) (shapeId (c_target (st_conns st r)))
          else c_targetShape (st_conns st r))
   \<and> (endpoints_invariant st
        \<longrightarrow> endpoints_invariant (addConnection r st) = connection_valid st r)"
  using addConnection_stored addConnection_links addConnection_invariant by blast

theorem addConnection_endpoints_witness:
  "endpoints_invariant (addShape 11 (addShape 10 store0))
   \<and> connection_valid (addShape 11 (addShape 10 store0)) 20
   \<and> endpoints_invariant store_AB"
proof -
  have i: "endpoints_invariant (addShape 11 (addShape 10 store0))"
    by (simp add: endpoints_invariant_def addShape_def Let_def example_defs)
  have v: "connection_valid (addShape 11 (addShape 10 store0)) 20"
    by (simp add: connection_valid_def endpoint_present_def getShape_def Map_get_def Map_set_def
        addShape_def Let_def example_defs)
  from addConnection_endpoints [of 20 "addShape 11 (addShape 10 store0)"] i v
  have "endpoints_invariant (addConnection 20 (addShape 11 (addShape 10 store0)))" by blast
  with i v show ?thesis by (simp add: store_AB_def)
qed

text \<open>
  Adding the connection from \<open>A\<close> to \<open>B\<close> to the empty diagram stores it with an unresolved
  source, so the stored collection violates the invariant.
\<close>

theorem dangling_connection_stored:
  "endpoints_invariant store0
   \<and> getShape store0 ''A'' = None
   \<and> shapeId (c_source (st_conns store0 20)) = Some ''A''
   \<and> getConnection (addConnection 20 store0) ''AB'' = Some 20
   \<and> c_sourceShape (st_conns (addConnection 20 store0) 20) = None
   \<and> \<not> endpoints_invariant (addConnection 20 store0)"
  by (simp add: endpoints_invariant_def connection_valid_def endpoint_present_def getShape_def
      getConnection_def Map_get_def Map_set_def addConnection_def Let_def resolve_def example_defs)

section \<open>Commands on the store\<close>

subsection \<open>Projections of the diagram operations\<close>

lemma addShape_proj:
  "st_conns (addShape r st) = st_conns st"
  "d_connections (st_diagram (addShape r st)) = d_connections (st_diagram st)"
  "d_shapes (st_diagram (addShape r st)) = Map_set (s_id (st_shapes st r)) r (d_shapes (st_diagram st))"
  "s_id (st_shapes (addShape r st) q) = s_id (st_shapes st q)"
  "shape_obs (st_shapes (addShape r st) q) = shape_obs (st_shapes st q)"
  by (simp_all add: addShape_def Let_def shape_obs_def)

lemma removeShape_proj:
  "st_conns (snd (removeShape k st)) = st_conns st"
  "st_shapes (snd (removeShape k st)) = st_shapes st"
  "d_connections (st_diagram (snd (removeShape k st))) = d_connections (st_diagram st)"
  "d_shapes (st_diagram (snd (removeShape k st))) = Map_delete k (d_shapes (st_diagram st))"
  by (auto simp add: removeShape_def Let_def Map_get_def Map_delete_def map_of_eq_None_iff
           split: option.splits)

lemma removeConnection_proj:
  "st_conns (snd (removeConnection k st)) = st_conns st"
  "st_shapes (snd (removeConnection k st)) = st_shapes st"
  "d_shapes (st_diagram (snd (removeConnection k st))) = d_shapes (st_diagram st)"
  "d_connections (st_diagram (snd (removeConnection k st))) = Map_delete k (d_connections (st_diagram st))"
  by (auto simp add: removeConnection_def Let_def Map_get_def Map_delete_def map_of_eq_None_iff
           split: option.splits)

lemma addConnection_proj:
  "st_shapes (addConnection r st) = st_shapes st"
  "d_shapes (st_diagram (addConnection r st)) = d_shapes (st_diagram st)"
  "d_connections (st_diagram (addConnection r st))
     = Map_set (c_id (st_conns st r)) r (d_connections (st_diagram st))"
  "c_id (st_conns (addConnection r st) q) = c_id (st_conns st q)"
  "c_source (st_conns (addConnection r st) q) = c_source (st_conns st q)"
  "c_target (st_conns (addConnection r st) q) = c_target (st_conns st q)"
  "conn_obs (st_conns (addConnection r st) q) = conn_obs (st_conns st q)"
  by (simp_all add: addConnection_def Let_def conn_obs_def)

lemma addConnection_frame:
  "q \<noteq> r \<Longrightarrow> st_conns (addConnection r st) q = st_conns st q"
  by (simp add: addConnection_def Let_def)

lemma resolve_shapes:
  "d_shapes d = d_shapes d' \<Longrightarrow> resolve d sid = resolve d' sid"
  by (cases sid) (simp_all add: resolve_def)

lemma addConnection_links_any:
  "c_sourceShape (st_conns (addConnection p st) q)
     = (if q = p \<and> truthy (shapeId (c_source (st_conns st p)))
        then resolve (st_diagram st) (shapeId (c_source (st_conns st p)))
        else c_sourceShape (st_conns st q))"
  "c_targetShape (st_conns (addConnection p st) q)
     = (if q = p \<and> truthy (shapeId (c_target (st_conns st p)))
        then resolve (st_diagram st) (shapeId (c_target (st_conns st p)))
        else c_targetShape (st_conns st q))"
  by (simp_all add: addConnection_def Let_def)

subsection \<open>The loops over the related connections\<close>

lemma removeConnections_proj:
  "st_conns (removeConnections rs st) = st_conns st"
  "st_shapes (removeConnections rs st) = st_shapes st"
  "d_shapes (st_diagram (removeConnections rs st)) = d_shapes (st_diagram st)"
  by (induction rs arbitrary: st) (simp_all add: removeConnection_proj)

lemma removeConnections_conns:
  "d_connections (st_diagram (removeConnections rs st))
     = fold (\<lambda>q. AList.delete (c_id (st_conns st q))) rs (d_connections (st_diagram st))"
proof (induction rs arbitrary: st)
  case Nil
  show ?case by simp
next
  case (Cons q rs)
  show ?case
    by (simp add: Cons.IH removeConnection_proj Map_delete_def)
qed

lemma map_of_fold_delete:
  "map_of (fold (\<lambda>q. AList.delete (f q)) rs al) k
     = (if k \<in> f ` set rs then None else map_of al k)"
  by (induction rs arbitrary: al) (auto simp: delete_conv')

lemma distinct_fold_delete:
  "distinct (map fst al) \<Longrightarrow> distinct (map fst (fold (\<lambda>q. AList.delete (f q)) rs al))"
  by (induction rs arbitrary: al) (simp_all add: distinct_delete)

lemma set_fold_delete:
  "set (fold (\<lambda>q. AList.delete (f q)) rs al) = {p \<in> set al. fst p \<notin> f ` set rs}"
  by (induction rs arbitrary: al) (auto simp: AList.delete_eq)

lemma addConnections_proj:
  "st_shapes (addConnections rs st) = st_shapes st"
  "d_shapes (st_diagram (addConnections rs st)) = d_shapes (st_diagram st)"
  "c_id (st_conns (addConnections rs st) q) = c_id (st_conns st q)"
  "c_source (st_conns (addConnections rs st) q) = c_source (st_conns st q)"
  "c_target (st_conns (addConnections rs st) q) = c_target (st_conns st q)"
  "conn_obs (st_conns (addConnections rs st) q) = conn_obs (st_conns st q)"
  by (induction rs arbitrary: st) (simp_all add: addConnection_proj)

lemma addConnections_conns:
  "d_connections (st_diagram (addConnections rs st))
     = fold (\<lambda>q. AList.update (c_id (st_conns st q)) q) rs (d_connections (st_diagram st))"
proof (induction rs arbitrary: st)
  case Nil
  show ?case by simp
next
  case (Cons q rs)
  show ?case
    by (simp add: Cons.IH addConnection_proj Map_set_def)
qed

lemma map_of_fold_update:
  assumes "\<forall>q \<in> set rs. m0 (f q) = Some q"
    and "\<forall>k. k \<notin> f ` set rs \<longrightarrow> map_of al k = m0 k"
  shows "map_of (fold (\<lambda>q. AList.update (f q) q) rs al) = m0"
  using assms
proof (induction rs arbitrary: al)
  case Nil
  then show ?case by auto
next
  case (Cons q rs)
  have "map_of (fold (\<lambda>q. AList.update (f q) q) rs (AList.update (f q) q al)) = m0"
  proof (rule Cons.IH)
    show "\<forall>q \<in> set rs. m0 (f q) = Some q" using Cons.prems(1) by simp
    show "\<forall>k. k \<notin> f ` set rs \<longrightarrow> map_of (AList.update (f q) q al) k = m0 k"
      using Cons.prems by (auto simp: update_conv')
  qed
  then show ?case by simp
qed

lemma distinct_fold_update:
  "distinct (map fst al) \<Longrightarrow> distinct (map fst (fold (\<lambda>q. AList.update (f q) q) rs al))"
  by (induction rs arbitrary: al) (simp_all add: distinct_update)

lemma addConnections_frame:
  "q \<notin> set rs \<Longrightarrow> st_conns (addConnections rs st) q = st_conns st q"
  by (induction rs arbitrary: st) (auto simp: addConnection_frame)

lemma addConnections_links:
  "q \<in> set rs \<Longrightarrow>
     c_sourceShape (st_conns (addConnections rs st) q)
       = (if truthy (shapeId (c_source (st_conns st q)))
          then resolve (st_diagram st) (shapeId (c_source (st_conns st q)))
          else c_sourceShape (st_conns st q))
     \<and> c_targetShape (st_conns (addConnections rs st) q)
       = (if truthy (shapeId (c_target (st_conns st q)))
          then resolve (st_diagram st) (shapeId (c_target (st_conns st q)))
          else c_targetShape (st_conns st q))"
proof (induction rs arbitrary: st)
  case Nil
  then show ?case by simp
next
  case (Cons p rs)
  have res: "\<And>sid. resolve (st_diagram (addConnection p st)) sid = resolve (st_diagram st) sid"
    by (rule resolve_shapes) (simp add: addConnection_proj)
  show ?case
  proof (cases "q \<in> set rs")
    case True
    from Cons.IH[OF True, of "addConnection p st"] show ?thesis
      by (simp add: addConnection_proj res addConnection_links_any)
  next
    case False
    with Cons.prems have qp: "q = p" by simp
    have "st_conns (addConnections rs (addConnection p st)) q = st_conns (addConnection p st) q"
      using False by (rule addConnections_frame)
    then show ?thesis using qp by (simp add: addConnection_links_any)
  qed
qed


subsection \<open>Removing a shape with its connections\<close>

lemma wf_conn_entry:
  "wf_store st \<Longrightarrow> (k, q) \<in> set (d_connections (st_diagram st)) \<Longrightarrow>
     c_id (st_conns st q) = k \<and> map_of (d_connections (st_diagram st)) k = Some q"
  by (auto simp: wf_store_def list_all_iff)

lemma related_iff:
  "q \<in> set (getConnectionsForShape st sid)
     = (q \<in> snd ` set (d_connections (st_diagram st))
        \<and> (shapeId (c_source (st_conns st q)) = Some sid \<or> shapeId (c_target (st_conns st q)) = Some sid))"
  by (auto simp: getConnectionsForShape_def getConnections_def Map_values_def)

lemma related_entry:
  assumes "wf_store st" "q \<in> set (getConnectionsForShape st sid)"
  shows "(c_id (st_conns st q), q) \<in> set (d_connections (st_diagram st))"
proof -
  from assms(2) obtain k where "(k, q) \<in> set (d_connections (st_diagram st))"
    by (auto simp: related_iff)
  with wf_conn_entry[OF assms(1) this] show ?thesis by simp
qed

lemma related_key:
  assumes "wf_store st" "(k, q) \<in> set (d_connections (st_diagram st))"
  shows "(k \<in> (\<lambda>q. c_id (st_conns st q)) ` set (getConnectionsForShape st sid))
           = (q \<in> set (getConnectionsForShape st sid))"
proof
  assume "k \<in> (\<lambda>q. c_id (st_conns st q)) ` set (getConnectionsForShape st sid)"
  then obtain p where p: "p \<in> set (getConnectionsForShape st sid)" "k = c_id (st_conns st p)"
    by auto
  from related_entry[OF assms(1) p(1)] p(2)
  have "(k, p) \<in> set (d_connections (st_diagram st))" by simp
  with assms have "p = q" by (auto simp: wf_store_def dest: eq_key_imp_eq_value)
  with p(1) show "q \<in> set (getConnectionsForShape st sid)" by simp
next
  assume "q \<in> set (getConnectionsForShape st sid)"
  moreover have "c_id (st_conns st q) = k" using wf_conn_entry[OF assms] by simp
  ultimately show "k \<in> (\<lambda>q. c_id (st_conns st q)) ` set (getConnectionsForShape st sid)"
    by force
qed

lemma execute_RemoveShape:
  "command_execute (RemoveShapeCommand r rel0) st
     = Inr (RemoveShapeCommand r (getConnectionsForShape st (s_id (st_shapes st r))),
            snd (removeShape (s_id (st_shapes st r))
                   (removeConnections (getConnectionsForShape st (s_id (st_shapes st r))) st)))"
  by (simp add: Let_def removeConnections_proj)

lemma removed_proj:
  fixes st sid rel
  defines "st1 \<equiv> snd (removeShape sid (removeConnections rel st))"
  shows "st_conns st1 = st_conns st"
    and "st_shapes st1 = st_shapes st"
    and "d_shapes (st_diagram st1) = AList.delete sid (d_shapes (st_diagram st))"
    and "d_connections (st_diagram st1)
           = fold (\<lambda>q. AList.delete (c_id (st_conns st q))) rel (d_connections (st_diagram st))"
  by (simp_all add: st1_def removeShape_proj removeConnections_proj removeConnections_conns
      Map_delete_def)

lemma removed_shape_gone:
  "getShape (snd (removeShape sid (removeConnections rel st))) sid = None"
  by (simp add: getShape_def Map_get_def removed_proj delete_conv')

lemma removed_connections:
  assumes "wf_store st" "(k, q) \<in> set (d_connections (st_diagram st))"
  shows "getConnection (snd (removeShape sid (removeConnections (getConnectionsForShape st sid) st))) k
           = (if q \<in> set (getConnectionsForShape st sid) then None else Some q)"
  using related_key[OF assms, of sid] wf_conn_entry[OF assms]
  by (simp add: getConnection_def Map_get_def removed_proj map_of_fold_delete)

lemma removed_none_related:
  assumes "wf_store st"
  shows "getConnectionsForShape
           (snd (removeShape sid (removeConnections (getConnectionsForShape st sid) st))) sid = []"
proof -
  let ?rel = "getConnectionsForShape st sid"
  let ?st1 = "snd (removeShape sid (removeConnections ?rel st))"
  {
    fix q assume "q \<in> set (getConnectionsForShape ?st1 sid)"
    then obtain k where kq: "(k, q) \<in> set (d_connections (st_diagram ?st1))"
      and P: "shapeId (c_source (st_conns st q)) = Some sid \<or> shapeId (c_target (st_conns st q)) = Some sid"
      by (auto simp: related_iff removed_proj)
    from kq have in_C: "(k, q) \<in> set (d_connections (st_diagram st))"
      and notk: "k \<notin> (\<lambda>q. c_id (st_conns st q)) ` set ?rel"
      by (auto simp: removed_proj set_fold_delete)
    from in_C P have "q \<in> set ?rel" by (force simp: related_iff)
    with related_key[OF assms in_C, of sid] notk have False by simp
  }
  then show ?thesis by (cases "getConnectionsForShape ?st1 sid") auto
qed


subsection \<open>Restoring a shape with its connections\<close>

lemma set_eq_by_map_of:
  "distinct (map fst xs) \<Longrightarrow> distinct (map fst ys) \<Longrightarrow> map_of xs = map_of ys \<Longrightarrow> set xs = set ys"
  by (simp add: map_of_inject_set)

lemma restored_shapes:
  assumes "wf_store st" "getShape st sid = Some r"
  shows "set (AList.update sid r (AList.delete sid (d_shapes (st_diagram st))))
           = set (d_shapes (st_diagram st))"
proof (rule set_eq_by_map_of)
  show "distinct (map fst (AList.update sid r (AList.delete sid (d_shapes (st_diagram st)))))"
    using assms(1) by (simp add: wf_store_def distinct_update distinct_delete)
  show "distinct (map fst (d_shapes (st_diagram st)))"
    using assms(1) by (simp add: wf_store_def)
  have "map_of (d_shapes (st_diagram st)) sid = Some r"
    using assms(2) by (simp add: getShape_def Map_get_def)
  then show "map_of (AList.update sid r (AList.delete sid (d_shapes (st_diagram st))))
               = map_of (d_shapes (st_diagram st))"
    by (auto simp: update_conv' delete_conv')
qed

lemma restored_connections_map:
  assumes "wf_store st"
  shows "map_of (fold (\<lambda>q. AList.update (c_id (st_conns st q)) q) (getConnectionsForShape st sid)
                  (fold (\<lambda>q. AList.delete (c_id (st_conns st q))) (getConnectionsForShape st sid)
                     (d_connections (st_diagram st))))
           = map_of (d_connections (st_diagram st))"
proof (rule map_of_fold_update)
  show "\<forall>q \<in> set (getConnectionsForShape st sid).
          map_of (d_connections (st_diagram st)) (c_id (st_conns st q)) = Some q"
    using wf_conn_entry[OF assms related_entry[OF assms]] by blast
  show "\<forall>k. k \<notin> (\<lambda>q. c_id (st_conns st q)) ` set (getConnectionsForShape st sid) \<longrightarrow>
          map_of (fold (\<lambda>q. AList.delete (c_id (st_conns st q))) (getConnectionsForShape st sid)
                    (d_connections (st_diagram st))) k
            = map_of (d_connections (st_diagram st)) k"
    by (simp add: map_of_fold_delete)
qed

lemma restored_connections:
  assumes "wf_store st"
  shows "set (fold (\<lambda>q. AList.update (c_id (st_conns st q)) q) (getConnectionsForShape st sid)
                  (fold (\<lambda>q. AList.delete (c_id (st_conns st q))) (getConnectionsForShape st sid)
                     (d_connections (st_diagram st))))
           = set (d_connections (st_diagram st))"
proof (rule set_eq_by_map_of)
  show "distinct (map fst (fold (\<lambda>q. AList.update (c_id (st_conns st q)) q) (getConnectionsForShape st sid)
                  (fold (\<lambda>q. AList.delete (c_id (st_conns st q))) (getConnectionsForShape st sid)
                     (d_connections (st_diagram st)))))"
    using assms by (simp add: wf_store_def distinct_fold_update distinct_fold_delete)
  show "distinct (map fst (d_connections (st_diagram st)))"
    using assms by (simp add: wf_store_def)
qed (rule restored_connections_map[OF assms])

lemma restored_proj:
  fixes st r
  defines "sid \<equiv> s_id (st_shapes st r)"
  defines "rel \<equiv> getConnectionsForShape st sid"
  defines "st2 \<equiv> addConnections rel (addShape r (snd (removeShape sid (removeConnections rel st))))"
  shows "d_shapes (st_diagram st2) = AList.update sid r (AList.delete sid (d_shapes (st_diagram st)))"
    and "d_connections (st_diagram st2)
           = fold (\<lambda>q. AList.update (c_id (st_conns st q)) q) rel
               (fold (\<lambda>q. AList.delete (c_id (st_conns st q))) rel (d_connections (st_diagram st)))"
    and "shape_obs (st_shapes st2 q) = shape_obs (st_shapes st q)"
    and "conn_obs (st_conns st2 q) = conn_obs (st_conns st q)"
    and "c_id (st_conns st2 q) = c_id (st_conns st q)"
    and "c_source (st_conns st2 q) = c_source (st_conns st q)"
    and "c_target (st_conns st2 q) = c_target (st_conns st q)"
  by (simp_all add: st2_def sid_def addConnections_proj addConnections_conns addShape_proj
      removed_proj Map_set_def)

lemma restored_same_model:
  assumes "wf_store st" "getShape st (s_id (st_shapes st r)) = Some r"
  shows "same_model st
           (addConnections (getConnectionsForShape st (s_id (st_shapes st r)))
              (addShape r (snd (removeShape (s_id (st_shapes st r))
                 (removeConnections (getConnectionsForShape st (s_id (st_shapes st r))) st)))))"
  unfolding same_model_def list_all_iff
  by (simp add: restored_proj restored_shapes[OF assms] restored_connections[OF assms(1)]
      split_beta)

lemma restored_links:
  fixes st r
  defines "sid \<equiv> s_id (st_shapes st r)"
  defines "rel \<equiv> getConnectionsForShape st sid"
  defines "st2 \<equiv> addConnections rel (addShape r (snd (removeShape sid (removeConnections rel st))))"
  assumes "q \<in> set rel"
  shows "links_resolved st2 q"
proof -
  let ?st1 = "addShape r (snd (removeShape sid (removeConnections rel st)))"
  have res: "\<And>x. resolve (st_diagram st2) x = resolve (st_diagram ?st1) x"
    by (rule resolve_shapes) (simp add: st2_def addConnections_proj)
  have src: "c_source (st_conns st2 q) = c_source (st_conns ?st1 q)"
    and tgt: "c_target (st_conns st2 q) = c_target (st_conns ?st1 q)"
    by (simp_all add: st2_def addConnections_proj)
  have "c_sourceShape (st_conns st2 q)
          = (if truthy (shapeId (c_source (st_conns ?st1 q)))
             then resolve (st_diagram ?st1) (shapeId (c_source (st_conns ?st1 q)))
             else c_sourceShape (st_conns ?st1 q))"
    and "c_targetShape (st_conns st2 q)
          = (if truthy (shapeId (c_target (st_conns ?st1 q)))
             then resolve (st_diagram ?st1) (shapeId (c_target (st_conns ?st1 q)))
             else c_targetShape (st_conns ?st1 q))"
    using addConnections_links[OF assms(4), of ?st1] unfolding st2_def by blast+
  then show ?thesis
    unfolding links_resolved_def by (simp only: src tgt res) simp
qed


subsection \<open>The single commands\<close>















section \<open>Cascading delete\<close>

subsection \<open>Well-formed stores\<close>

lemma list_all_update:
  assumes "list_all P al" "P (k, v)"
  shows "list_all P (AList.update k v al)"
  using assms set_update_subset[of k v al] by (auto simp: list_all_iff)

lemma list_all_delete:
  "list_all P al \<Longrightarrow> list_all P (AList.delete k al)"
  by (auto simp: list_all_iff AList.delete_eq)

lemma wf_store_preserved:
  assumes "wf_store st"
  shows "wf_store (addShape r st)"
    and "wf_store (snd (removeShape k st))"
    and "wf_store (addConnection r st)"
    and "wf_store (snd (removeConnection k st))"
proof -
  show "wf_store (addShape r st)"
    using assms unfolding wf_store_def
    by (auto simp: addShape_proj Map_set_def distinct_update intro!: list_all_update)
  show "wf_store (snd (removeShape k st))"
    using assms unfolding wf_store_def
    by (auto simp: removeShape_proj Map_delete_def distinct_delete intro!: list_all_delete)
  show "wf_store (addConnection r st)"
    using assms unfolding wf_store_def
    by (auto simp: addConnection_proj Map_set_def distinct_update intro!: list_all_update)
  show "wf_store (snd (removeConnection k st))"
    using assms unfolding wf_store_def
    by (auto simp: removeConnection_proj Map_delete_def distinct_delete intro!: list_all_delete)
qed

lemma wf_store0: "wf_store store0"
  by (simp add: wf_store_def store0_def new_Diagram_def)

lemma wf_store_AB: "wf_store store_AB"
  unfolding store_AB_def by (intro wf_store_preserved wf_store0)

lemma wf_store_ABC: "wf_store store_ABC"
  unfolding store_ABC_def by (intro wf_store_preserved wf_store_AB)

lemma store_AB_diagram:
  "d_shapes (st_diagram store_AB) = [(''A'', 10), (''B'', 11)]"
  "d_connections (st_diagram store_AB) = [(''AB'', 20)]"
  by (simp_all add: example_defs addShape_def addConnection_def Let_def Map_set_def)

lemma store_AB_heap:
  "st_shapes store_AB 10 = shape_A\<lparr>s_diagramType := ''sequence''\<rparr>"
  "st_shapes store_AB 11 = shape_B\<lparr>s_diagramType := ''sequence''\<rparr>"
  "st_shapes store_AB 12 = shape_C"
  "st_conns store_AB 20 = conn_AB\<lparr>c_diagramType := ''sequence'', c_sourceShape := Some 10, c_targetShape := Some 11\<rparr>"
  "st_conns store_AB 21 = conn_BA"
  by (simp_all add: store_AB_def store0_def addShape_def addConnection_def Let_def Map_set_def
      new_Diagram_def no_diagram_data_def or_str_def truthy_def resolve_def Map_get_def
      shape_A_def shape_B_def conn_AB_def new_Shape_def new_Connection_def no_shape_data_def
      no_conn_data_def or_null_def)

lemma ids:
  "s_id shape_A = ''A''" "s_id shape_B = ''B''" "s_id shape_C = ''C''"
  "c_id conn_AB = ''AB''" "c_id conn_BA = ''BA''"
  "c_source conn_AB = \<lparr>shapeId = Some ''A'', anchor = ''auto''\<rparr>"
  "c_target conn_AB = \<lparr>shapeId = Some ''B'', anchor = ''auto''\<rparr>"
  by (simp_all add: example_defs)

lemma store_AB_lookup:
  "getShape store_AB ''A'' = Some 10" "getShape store_AB ''B'' = Some 11"
  "resolve (st_diagram store_AB) (Some ''A'') = Some 10"
  by (simp_all add: getShape_def resolve_def Map_get_def store_AB_diagram)


lemma fold_delete_filter:
  "fold (\<lambda>q. AList.delete (f q)) rs al = filter (\<lambda>p. fst p \<notin> f ` set rs) al"
proof (induction rs arbitrary: al)
  case Nil
  show ?case by simp
next
  case (Cons q rs)
  have d: "AList.delete (f q) al = filter (\<lambda>p. fst p \<noteq> f q) al"
    by (induction al) auto
  show ?case by (auto simp: Cons.IH d intro: filter_cong)
qed

lemma attached_iff:
  assumes "(k, q) \<in> set (d_connections (st_diagram st))"
  shows "(q \<in> set (getConnectionsForShape st sid))
           = (shapeId (c_source (st_conns st q)) = Some sid
              \<or> shapeId (c_target (st_conns st q)) = Some sid)"
  using assms by (force simp: related_iff)

lemma removed_connections_filter:
  assumes "wf_store st"
  shows "d_connections (st_diagram (snd (removeShape sid
             (removeConnections (getConnectionsForShape st sid) st))))
           = filter (\<lambda>(k, q). shapeId (c_source (st_conns st q)) \<noteq> Some sid
                              \<and> shapeId (c_target (st_conns st q)) \<noteq> Some sid)
               (d_connections (st_diagram st))"
proof -
  have "filter (\<lambda>p. fst p \<notin> (\<lambda>q. c_id (st_conns st q)) ` set (getConnectionsForShape st sid))
          (d_connections (st_diagram st))
        = filter (\<lambda>(k, q). shapeId (c_source (st_conns st q)) \<noteq> Some sid
                              \<and> shapeId (c_target (st_conns st q)) \<noteq> Some sid)
            (d_connections (st_diagram st))"
  proof (rule filter_cong[OF refl])
    fix p assume p: "p \<in> set (d_connections (st_diagram st))"
    obtain k q where kq: "p = (k, q)" by (cases p)
    from p kq have e: "(k, q) \<in> set (d_connections (st_diagram st))" by simp
    show "(fst p \<notin> (\<lambda>q. c_id (st_conns st q)) ` set (getConnectionsForShape st sid))
            = (case p of (k, q) \<Rightarrow> shapeId (c_source (st_conns st q)) \<noteq> Some sid
                              \<and> shapeId (c_target (st_conns st q)) \<noteq> Some sid)"
      using related_key[OF assms e, of sid] attached_iff[OF e, of sid] by (simp add: kq)
  qed
  then show ?thesis by (simp only: removed_proj fold_delete_filter)
qed

lemma restored_frame:
  assumes "q \<notin> set rel"
  shows "st_conns (addConnections rel (addShape r (snd (removeShape sid (removeConnections rel st))))) q
           = st_conns st q"
  by (simp add: addConnections_frame[OF assms] addShape_proj removed_proj)

text \<open>
  Claim C7. In a well-formed diagram, for a shape filed under its (non-empty) id, executing
  \<^verbatim>\<open>RemoveShapeCommand\<close> removes the shape and leaves every other shape in place, and the
  connections that stay are exactly those whose source id and target id both differ from
  the shape's id, in their order, the connection objects untouched. Undoing that command
  then gives a diagram that again holds the same shape under every id and is observationally
  equal to the first; every connection is stored under its id again, and each connection
  that had an end at the removed shape has its \<^verbatim>\<open>sourceShape\<close> and \<^verbatim>\<open>targetShape\<close>
  references set to the shapes that the restored diagram holds under its two end ids, the
  end that names the removed shape pointing to that shape again; the connection objects
  that had no end at the shape are untouched.
\<close>

theorem cascading_delete:
  assumes "wf_store st"
    and "getShape st (s_id (st_shapes st r)) = Some r"
    and "s_id (st_shapes st r) \<noteq> []"
  shows "case command_execute (RemoveShapeCommand r rel0) st of
           Inl _ \<Rightarrow> False
         | Inr (c', st1) \<Rightarrow>
             getShape st1 (s_id (st_shapes st r)) = None
             \<and> (\<forall>k. k \<noteq> s_id (st_shapes st r) \<longrightarrow> getShape st1 k = getShape st k)
             \<and> st_conns st1 = st_conns st
             \<and> d_connections (st_diagram st1)
                 = filter (\<lambda>(k, q). shapeId (c_source (st_conns st q)) \<noteq> Some (s_id (st_shapes st r))
                                    \<and> shapeId (c_target (st_conns st q)) \<noteq> Some (s_id (st_shapes st r)))
                     (d_connections (st_diagram st))
             \<and> (case command_undo c' st1 of
                   Inl _ \<Rightarrow> False
                 | Inr st2 \<Rightarrow>
                     getShape st2 (s_id (st_shapes st r)) = Some r
                     \<and> getShape st2 = getShape st
                     \<and> same_model st st2
                     \<and> (\<forall>(k, q) \<in> set (d_connections (st_diagram st)).
                           getConnection st2 k = Some q
                           \<and> (if shapeId (c_source (st_conns st q)) = Some (s_id (st_shapes st r))
                                 \<or> shapeId (c_target (st_conns st q)) = Some (s_id (st_shapes st r))
                              then (\<forall>k'. k' \<noteq> [] \<and> shapeId (c_source (st_conns st2 q)) = Some k'
                                      \<longrightarrow> c_sourceShape (st_conns st2 q) = getShape st2 k')
                                 \<and> (\<forall>k'. k' \<noteq> [] \<and> shapeId (c_target (st_conns st2 q)) = Some k'
                                      \<longrightarrow> c_targetShape (st_conns st2 q) = getShape st2 k')
                                 \<and> (shapeId (c_source (st_conns st2 q)) = Some (s_id (st_shapes st r))
                                      \<longrightarrow> c_sourceShape (st_conns st2 q) = Some r)
                                 \<and> (shapeId (c_target (st_conns st2 q)) = Some (s_id (st_shapes st r))
                                      \<longrightarrow> c_targetShape (st_conns st2 q) = Some r)
                              else st_conns st2 q = st_conns st q)))"
proof -
  let ?sid = "s_id (st_shapes st r)"
  let ?rel = "getConnectionsForShape st ?sid"
  let ?st1 = "snd (removeShape ?sid (removeConnections ?rel st))"
  let ?st2 = "addConnections ?rel (addShape r ?st1)"
  have ex: "command_execute (RemoveShapeCommand r rel0) st = Inr (RemoveShapeCommand r ?rel, ?st1)"
    by (rule execute_RemoveShape)
  have un: "command_undo (RemoveShapeCommand r ?rel) ?st1 = Inr ?st2" by simp
  have a: "getShape ?st1 ?sid = None" by (rule removed_shape_gone)
  have a': "\<forall>k. k \<noteq> ?sid \<longrightarrow> getShape ?st1 k = getShape st k"
    by (simp add: getShape_def Map_get_def removed_proj delete_conv')
  have b: "st_conns ?st1 = st_conns st" by (simp add: removed_proj)
  have c: "d_connections (st_diagram ?st1)
             = filter (\<lambda>(k, q). shapeId (c_source (st_conns st q)) \<noteq> Some ?sid
                                \<and> shapeId (c_target (st_conns st q)) \<noteq> Some ?sid)
                 (d_connections (st_diagram st))"
    by (rule removed_connections_filter[OF assms(1)])
  have shapes2: "d_shapes (st_diagram ?st2) = AList.update ?sid r (AList.delete ?sid (d_shapes (st_diagram st)))"
    by (rule restored_proj)
  have d: "getShape ?st2 ?sid = Some r"
    by (simp add: getShape_def Map_get_def shapes2 update_conv')
  have "map_of (d_shapes (st_diagram st)) ?sid = Some r"
    using assms(2) by (simp add: getShape_def Map_get_def)
  then have "map_of (AList.update ?sid r (AList.delete ?sid (d_shapes (st_diagram st))))
               = map_of (d_shapes (st_diagram st))"
    by (auto simp: update_conv' delete_conv')
  then have d': "getShape ?st2 = getShape st"
    by (intro ext) (simp add: getShape_def Map_get_def shapes2)
  have e: "same_model st ?st2" by (rule restored_same_model[OF assms(1,2)])
  have conns2: "map_of (d_connections (st_diagram ?st2)) = map_of (d_connections (st_diagram st))"
    by (simp only: restored_proj restored_connections_map[OF assms(1)])
  have f: "\<forall>(k, q) \<in> set (d_connections (st_diagram st)).
             getConnection ?st2 k = Some q
             \<and> (if shapeId (c_source (st_conns st q)) = Some ?sid
                   \<or> shapeId (c_target (st_conns st q)) = Some ?sid
                then (\<forall>k'. k' \<noteq> [] \<and> shapeId (c_source (st_conns ?st2 q)) = Some k'
                        \<longrightarrow> c_sourceShape (st_conns ?st2 q) = getShape ?st2 k')
                   \<and> (\<forall>k'. k' \<noteq> [] \<and> shapeId (c_target (st_conns ?st2 q)) = Some k'
                        \<longrightarrow> c_targetShape (st_conns ?st2 q) = getShape ?st2 k')
                   \<and> (shapeId (c_source (st_conns ?st2 q)) = Some ?sid
                        \<longrightarrow> c_sourceShape (st_conns ?st2 q) = Some r)
                   \<and> (shapeId (c_target (st_conns ?st2 q)) = Some ?sid
                        \<longrightarrow> c_targetShape (st_conns ?st2 q) = Some r)
                else st_conns ?st2 q = st_conns st q)"
  proof (intro ballI, clarify)
    fix k q assume kq: "(k, q) \<in> set (d_connections (st_diagram st))"
    have g: "getConnection ?st2 k = Some q"
      using wf_conn_entry[OF assms(1) kq] by (simp add: getConnection_def Map_get_def conns2)
    show "getConnection ?st2 k = Some q
             \<and> (if shapeId (c_source (st_conns st q)) = Some ?sid
                   \<or> shapeId (c_target (st_conns st q)) = Some ?sid
                then (\<forall>k'. k' \<noteq> [] \<and> shapeId (c_source (st_conns ?st2 q)) = Some k'
                        \<longrightarrow> c_sourceShape (st_conns ?st2 q) = getShape ?st2 k')
                   \<and> (\<forall>k'. k' \<noteq> [] \<and> shapeId (c_target (st_conns ?st2 q)) = Some k'
                        \<longrightarrow> c_targetShape (st_conns ?st2 q) = getShape ?st2 k')
                   \<and> (shapeId (c_source (st_conns ?st2 q)) = Some ?sid
                        \<longrightarrow> c_sourceShape (st_conns ?st2 q) = Some r)
                   \<and> (shapeId (c_target (st_conns ?st2 q)) = Some ?sid
                        \<longrightarrow> c_targetShape (st_conns ?st2 q) = Some r)
                else st_conns ?st2 q = st_conns st q)"
    proof (cases "shapeId (c_source (st_conns st q)) = Some ?sid
                   \<or> shapeId (c_target (st_conns st q)) = Some ?sid")
      case True
      then have q: "q \<in> set ?rel" by (simp add: attached_iff[OF kq])
      have l: "links_resolved ?st2 q" using q by (rule restored_links)
      have l1: "\<forall>k'. k' \<noteq> [] \<and> shapeId (c_source (st_conns ?st2 q)) = Some k'
                        \<longrightarrow> c_sourceShape (st_conns ?st2 q) = getShape ?st2 k'"
        using l by (auto simp: links_resolved_def truthy_def resolve_def getShape_def)
      have l2: "\<forall>k'. k' \<noteq> [] \<and> shapeId (c_target (st_conns ?st2 q)) = Some k'
                        \<longrightarrow> c_targetShape (st_conns ?st2 q) = getShape ?st2 k'"
        using l by (auto simp: links_resolved_def truthy_def resolve_def getShape_def)
      from l1 l2 d assms(3) g True show ?thesis by simp
    next
      case False
      then have "q \<notin> set ?rel" by (simp add: attached_iff[OF kq])
      then have "st_conns ?st2 q = st_conns st q" by (rule restored_frame)
      with g False show ?thesis by simp
    qed
  qed
  from a a' b c d d' e f show ?thesis
    by (simp only: ex un sum.case prod.case)
qed

lemma store_ABC_diagram:
  "d_shapes (st_diagram store_ABC) = [(''A'', 10), (''B'', 11), (''C'', 12)]"
  "d_connections (st_diagram store_ABC) = [(''AB'', 20)]"
  by (simp_all add: store_ABC_def addShape_proj store_AB_diagram store_AB_heap ids Map_set_def)

lemma store_linked_diagram:
  "d_shapes (st_diagram store_linked) = [(''A'', 10), (''B'', 11), (''C'', 12)]"
  "d_connections (st_diagram store_linked) = [(''AB'', 20), (''BA'', 21), (''BC'', 22)]"
  by (simp_all add: store_linked_def addConnection_proj store_ABC_def addShape_proj
      store_AB_diagram store_AB_heap ids Map_set_def conn_BC_def new_Connection_def
      no_conn_data_def or_str_def)

lemma store_linked_ids:
  "s_id (st_shapes store_linked 10) = ''A''"
  "c_id (st_conns store_linked 20) = ''AB''"
  "c_id (st_conns store_linked 21) = ''BA''"
  "c_id (st_conns store_linked 22) = ''BC''"
  "shapeId (c_source (st_conns store_linked 20)) = Some ''A''"
  "shapeId (c_target (st_conns store_linked 20)) = Some ''B''"
  "shapeId (c_source (st_conns store_linked 21)) = Some ''B''"
  "shapeId (c_target (st_conns store_linked 21)) = Some ''A''"
  "shapeId (c_source (st_conns store_linked 22)) = Some ''B''"
  "shapeId (c_target (st_conns store_linked 22)) = Some ''C''"
  by (simp_all add: store_linked_def addConnection_proj store_ABC_def addShape_proj
      store_AB_heap ids conn_BC_def conn_BA_def conn_AB_def new_Connection_def no_conn_data_def
      or_str_def or_null_def truthy_def)

lemma store_linked_lookup:
  "getShape store_linked ''A'' = Some 10" "getShape store_linked ''B'' = Some 11"
  "getShape store_linked ''C'' = Some 12"
  by (simp_all add: getShape_def Map_get_def store_linked_diagram)

lemma wf_store_linked: "wf_store store_linked"
proof -
  have "wf_store (store_ABC\<lparr>st_conns := (st_conns store_ABC)(22 := conn_BC)\<rparr>)"
    using wf_store_ABC by (simp add: wf_store_def store_ABC_diagram)
  then show ?thesis unfolding store_linked_def by (intro wf_store_preserved)
qed

lemma related_linked: "getConnectionsForShape store_linked ''A'' = [20, 21]"
  by (simp add: getConnectionsForShape_def getConnections_def Map_values_def
      store_linked_diagram store_linked_ids)

theorem cascading_delete_witness:
  "wf_store store_linked
   \<and> getShape store_linked (s_id (st_shapes store_linked 10)) = Some 10
   \<and> s_id (st_shapes store_linked 10) \<noteq> []
   \<and> d_connections (st_diagram store_linked) = [(''AB'', 20), (''BA'', 21), (''BC'', 22)]
   \<and> (case command_execute (RemoveShapeCommand 10 []) store_linked of
         Inl _ \<Rightarrow> False
       | Inr (c', st1) \<Rightarrow>
           getShape st1 ''A'' = None \<and> getShape st1 ''B'' = Some 11
           \<and> d_connections (st_diagram st1) = [(''BC'', 22)]
           \<and> (case command_undo c' st1 of
                 Inl _ \<Rightarrow> False
               | Inr st2 \<Rightarrow>
                   getShape st2 ''A'' = Some 10 \<and> same_model store_linked st2
                   \<and> getConnection st2 ''AB'' = Some 20
                   \<and> getConnection st2 ''BA'' = Some 21
                   \<and> getConnection st2 ''BC'' = Some 22
                   \<and> c_sourceShape (st_conns st2 20) = Some 10
                   \<and> c_targetShape (st_conns st2 20) = Some 11
                   \<and> c_sourceShape (st_conns st2 21) = Some 11
                   \<and> c_targetShape (st_conns st2 21) = Some 10))"
proof -
  have sid: "s_id (st_shapes store_linked 10) = ''A''" by (rule store_linked_ids)
  have h1: "wf_store store_linked" by (rule wf_store_linked)
  have h2: "getShape store_linked (s_id (st_shapes store_linked 10)) = Some 10"
    by (simp add: sid store_linked_lookup)
  have h3: "s_id (st_shapes store_linked 10) \<noteq> []" by (simp add: sid)
  let ?st1 = "snd (removeShape ''A'' (removeConnections [20, 21] store_linked))"
  let ?st2 = "addConnections [20, 21] (addShape 10 ?st1)"
  have ex: "command_execute (RemoveShapeCommand 10 []) store_linked
              = Inr (RemoveShapeCommand 10 [20, 21], ?st1)"
    using execute_RemoveShape[of 10 "[]" store_linked] by (simp only: sid related_linked)
  have un: "command_undo (RemoveShapeCommand 10 [20, 21]) ?st1 = Inr ?st2" by simp
  have ends: "shapeId (c_source (st_conns ?st2 20)) = Some ''A''"
    "shapeId (c_target (st_conns ?st2 20)) = Some ''B''"
    "shapeId (c_source (st_conns ?st2 21)) = Some ''B''"
    "shapeId (c_target (st_conns ?st2 21)) = Some ''A''"
    using restored_proj(6)[of store_linked 10 20] restored_proj(7)[of store_linked 10 20]
      restored_proj(6)[of store_linked 10 21] restored_proj(7)[of store_linked 10 21]
    by (simp_all only: sid related_linked store_linked_ids)
  from cascading_delete [OF h1 h2 h3, of "[]"]
  have "getShape ?st1 ''A'' = None \<and> getShape ?st1 ''B'' = Some 11
        \<and> d_connections (st_diagram ?st1) = [(''BC'', 22)]
        \<and> getShape ?st2 ''A'' = Some 10 \<and> same_model store_linked ?st2
        \<and> getConnection ?st2 ''AB'' = Some 20
        \<and> getConnection ?st2 ''BA'' = Some 21
        \<and> getConnection ?st2 ''BC'' = Some 22
        \<and> c_sourceShape (st_conns ?st2 20) = Some 10
        \<and> c_targetShape (st_conns ?st2 20) = Some 11
        \<and> c_sourceShape (st_conns ?st2 21) = Some 11
        \<and> c_targetShape (st_conns ?st2 21) = Some 10"
    by (simp only: ex un sum.case prod.case sid)
       (simp add: store_linked_diagram store_linked_lookup store_linked_ids ends
             del: addConnections.simps removeConnections.simps)
  with h1 h2 h3 show ?thesis
    by (simp only: ex un sum.case prod.case) (simp add: store_linked_diagram)
qed
section \<open>The undo law\<close>









section \<open>Serialization round trip\<close>

lemma toJSON_AB:
  "connections_of (Diagram_toJSON store_AB) = [conn_toJSON (st_conns store_AB 20)]"
  "shapes_of (Diagram_toJSON store_AB) = [shape_toJSON (st_shapes store_AB 10), shape_toJSON (st_shapes store_AB 11)]"
  by (simp_all add: connections_of_def shapes_of_def Diagram_toJSON_def Let_def getConnections_def getShapes_def
      Map_values_def store_AB_diagram)

lemma src_AB:
  "cd_source (conn_toJSON (st_conns store_AB 20)) = Some \<lparr>shapeId = Some ''A'', anchor = ''auto''\<rparr>"
  "cd_target (conn_toJSON (st_conns store_AB 20)) = Some \<lparr>shapeId = Some ''B'', anchor = ''auto''\<rparr>"
  by (simp_all add: conn_toJSON_def store_AB_heap conn_AB_def new_Connection_def no_conn_data_def
      or_null_def truthy_def or_str_def)

lemma restored_conn:
  "conn_fromJSON ''conn-gen'' (conn_toJSON c)
     = \<lparr> c_id = or_str (Some (c_id c)) ''conn-gen'',
         c_type = or_str (Some (c_type c)) ''association'',
         c_diagramType = or_str (Some (c_diagramType c)) ''generic'',
         c_source = \<lparr>shapeId = None, anchor = ''auto''\<rparr>,
         c_target = \<lparr>shapeId = None, anchor = ''auto''\<rparr>,
         c_waypoints = c_waypoints c,
         c_properties = [''label'' \<mapsto> JStr []] ++ c_properties c,
         c_style = [''stroke'' \<mapsto> JStr ''#333333'', ''strokeWidth'' \<mapsto> JNum 1.5,
          ''lineStyle'' \<mapsto> JStr ''solid'', ''sourceArrow'' \<mapsto> JStr ''none'',
          ''targetArrow'' \<mapsto> JStr ''filled''] ++ c_style c,
         c_sourceShape = None, c_targetShape = None \<rparr>"
  by (simp add: conn_fromJSON_def conn_toJSON_def new_Connection_def Let_def or_null_def truthy_def
      or_str_def spread_def)

lemma restore_shapes_proj:
  "d_connections (st_diagram (restore_shapes f ds st)) = d_connections (st_diagram st)"
  by (induction ds arbitrary: st) (simp_all add: Let_def)

lemma restore_connection_single:
  "d_connections (st_diagram (restore_connections g [cd] st))
     = Map_set (c_id (g cd)) (st_next st) (d_connections (st_diagram st))"
  "c_source (st_conns (restore_connections g [cd] st) (st_next st)) = c_source (g cd)"
  "c_target (st_conns (restore_connections g [cd] st) (st_next st)) = c_target (g cd)"
  by (simp_all add: Let_def)

lemma fromJSON_AB_connections:
  fixes g
  defines "st1 \<equiv> restore_shapes (shape_fromJSON ''shape-gen'')
                     [shape_toJSON (st_shapes store_AB 10), shape_toJSON (st_shapes store_AB 11)]
                     (store_AB\<lparr>st_diagram := new_Diagram ''diagram-gen'' (st_now store_AB) (Diagram_toJSON store_AB)\<rparr>)"
  shows "Diagram_fromJSON ''diagram-gen'' (Diagram_toJSON store_AB)
           (Some (shape_fromJSON ''shape-gen'')) (Some g) store_AB
         = restore_connections g [conn_toJSON (st_conns store_AB 20)] st1"
proof -
  have s: "dd_shapes (Diagram_toJSON store_AB)
             = Some [shape_toJSON (st_shapes store_AB 10), shape_toJSON (st_shapes store_AB 11)]"
    and c: "dd_connections (Diagram_toJSON store_AB) = Some [conn_toJSON (st_conns store_AB 20)]"
    by (simp_all add: Diagram_toJSON_def Let_def getConnections_def getShapes_def
        Map_values_def store_AB_diagram)
  show ?thesis
    unfolding Diagram_fromJSON_def Let_def s c st1_def by simp
qed

lemma toJSON_connections:
  "connections_of (Diagram_toJSON st)
     = map (\<lambda>r. conn_toJSON (st_conns st r)) (map snd (d_connections (st_diagram st)))"
  by (simp add: connections_of_def Diagram_toJSON_def Let_def getConnections_def Map_values_def)

text \<open>
  Claim C9 does not hold of the code. \<^verbatim>\<open>Connection.toJSON\<close> writes the end descriptors under
  \<^verbatim>\<open>source\<close> and \<^verbatim>\<open>target\<close>, the constructor that \<^verbatim>\<open>Connection.fromJSON\<close> calls reads
  \<^verbatim>\<open>sourceId\<close>, \<^verbatim>\<open>sourceAnchor\<close>, \<^verbatim>\<open>targetId\<close> and \<^verbatim>\<open>targetAnchor\<close>. For the diagram with \<open>A\<close>,
  \<open>B\<close> and the connection between them, the first serialization names \<open>A\<close> and \<open>B\<close> as
  the ends of the connection and the serialization after a round trip names none.
\<close>

theorem roundtrip_drops_endpoints:
  "map cd_source (connections_of (Diagram_toJSON store_AB))
     = [Some \<lparr>shapeId = Some ''A'', anchor = ''auto''\<rparr>]
   \<and> map cd_target (connections_of (Diagram_toJSON store_AB))
     = [Some \<lparr>shapeId = Some ''B'', anchor = ''auto''\<rparr>]
   \<and> map cd_source (connections_of (roundtrip store_AB))
     = [Some \<lparr>shapeId = None, anchor = ''auto''\<rparr>]
   \<and> map cd_target (connections_of (roundtrip store_AB))
     = [Some \<lparr>shapeId = None, anchor = ''auto''\<rparr>]"
proof -
  define st1 where "st1 = restore_shapes (shape_fromJSON ''shape-gen'')
                     [shape_toJSON (st_shapes store_AB 10), shape_toJSON (st_shapes store_AB 11)]
                     (store_AB\<lparr>st_diagram := new_Diagram ''diagram-gen'' (st_now store_AB) (Diagram_toJSON store_AB)\<rparr>)"
  define st2 where "st2 = restore_connections (conn_fromJSON ''conn-gen'') [conn_toJSON (st_conns store_AB 20)] st1"
  have d1: "d_connections (st_diagram st1) = []"
    unfolding st1_def by (simp only: restore_shapes_proj) (simp add: new_Diagram_def)
  have d2: "map snd (d_connections (st_diagram st2)) = [st_next st1]"
    unfolding st2_def by (simp only: restore_connection_single d1) (simp add: Map_set_def)
  have e: "c_source (st_conns st2 (st_next st1)) = \<lparr>shapeId = None, anchor = ''auto''\<rparr>"
    "c_target (st_conns st2 (st_next st1)) = \<lparr>shapeId = None, anchor = ''auto''\<rparr>"
    unfolding st2_def by (simp_all only: restore_connection_single restored_conn) simp_all
  have "roundtrip store_AB = Diagram_toJSON st2"
    unfolding roundtrip_def fromJSON_AB_connections st2_def st1_def ..
  then have r: "connections_of (roundtrip store_AB) = [conn_toJSON (st_conns st2 (st_next st1))]"
    by (simp only: toJSON_connections d2) simp
  have o: "cd_source (conn_toJSON (st_conns st2 (st_next st1))) = Some \<lparr>shapeId = None, anchor = ''auto''\<rparr>"
    "cd_target (conn_toJSON (st_conns st2 (st_next st1))) = Some \<lparr>shapeId = None, anchor = ''auto''\<rparr>"
    by (simp_all add: conn_toJSON_def e)
  show ?thesis
    by (simp only: r toJSON_AB) (simp add: src_AB o)
qed

section \<open>Gestures\<close>

lemma A_bounds: "bounds_of (st_shapes store_AB 10) = \<lparr>b_x = 0, b_y = 0, b_width = 100, b_height = 60\<rparr>"
  by (simp add: bounds_of_def store_AB_heap shape_A_def new_Shape_def no_shape_data_def or_num_def)

lemma calc_se:
  "calculateNewBounds \<lparr>b_x = 0, b_y = 0, b_width = 100, b_height = 60\<rparr> ''se'' 40 30
     = \<lparr>b_x = 0, b_y = 0, b_width = 140, b_height = 90\<rparr>"
  by (simp add: calculateNewBounds_def Let_def str_includes_def)

text \<open>
  Claim C2 does not hold of the code. \<^verbatim>\<open>resetState\<close>, which the Escape key and a tool change
  call, clears the drag and the connection state but none of the resize state, and
  \<^verbatim>\<open>startResize\<close> does not clear the drag state. After Escape during a resize the flag
  \<^verbatim>\<open>isResizing\<close> stays set with \<^verbatim>\<open>state\<close> idle, so the release of the mouse does not end
  the resize; the next press on a shape starts a drag, and \<^verbatim>\<open>isDragging\<close> and \<^verbatim>\<open>isResizing\<close>
  are set together. The shape keeps the size of the interrupted resize and the history
  holds no command for it. A press on a handle during a drag sets both flags as well.
\<close>

theorem escape_leaves_resize_pending:
  "active_gestures (ctl (handle_all env0 escape_during_resize editor0)) = [''dragging'', ''resizing'']
   \<and> state (ctl (handle_all env0 escape_during_resize editor0)) = ''dragging''
   \<and> resizingShape (ctl (handle_all env0 escape_during_resize editor0)) = Some 10
   \<and> selectedShapes (handle_all env0 escape_during_resize editor0) = [11]
   \<and> s_width (st_shapes (model editor0) 10) = 100
   \<and> s_width (st_shapes (model (handle_all env0 escape_during_resize editor0)) 10) = 140
   \<and> undoStack (history (handle_all env0 escape_during_resize editor0)) = []
   \<and> active_gestures (ctl (handle_all env0 press_during_drag editor0)) = [''dragging'', ''resizing'']"
proof -
  let ?b0 = "\<lparr>b_x = 0, b_y = 0, b_width = 100, b_height = 60\<rparr>"
  let ?resizing = "new_controller\<lparr>isResizing := True, state := ''resizing'',
                    resizeHandle := Some ''se'', resizeStartBounds := Some ?b0,
                    dragStartPoint := Some (Point 100 60), resizingShape := Some 10\<rparr>"
  let ?resized = "update_shape 10 (\<lambda>s. s\<lparr>s_x := 0, s_y := 0, s_width := 140, s_height := 90\<rparr>) store_AB"
  let ?e1 = "editor0\<lparr>ctl := new_controller\<lparr>isDragging := True, state := ''dragging'',
                            dragStartPoint := Some (Point 50 30)\<rparr>, selectedShapes := [10]\<rparr>"
  let ?e2 = "editor0\<lparr>selectedShapes := [10]\<rparr>"
  let ?e3 = "editor0\<lparr>ctl := ?resizing, selectedShapes := [10]\<rparr>"
  let ?e4 = "editor0\<lparr>ctl := ?resizing, selectedShapes := [10], model := ?resized\<rparr>"
  let ?e5 = "editor0\<lparr>ctl := ?resizing\<lparr>state := ''idle'', dragStartPoint := None\<rparr>,
                     model := ?resized\<rparr>"
  let ?e7 = "editor0\<lparr>ctl := ?resizing\<lparr>state := ''dragging'', isDragging := True,
                              dragStartPoint := Some (Point 350 30)\<rparr>,
                     selectedShapes := [11], model := ?resized\<rparr>"
  have s1: "handle env0 (CanvasClicked (Point 50 30) (on_shape ''A'') False False) editor0 = ?e1"
    by (simp add: editor0_def handleCanvasClicked_def handleSelectClick_def on_shape_def
        new_controller_def store_AB_lookup selectShape_def clearSelection_def set_add_def
        startDrag_def Let_def)
  have s2: "handle env0 MouseUp ?e1 = ?e2"
    by (simp add: editor0_def handleMouseUp_def endDrag_def new_controller_def Let_def)
  have s3: "handle env0 (CanvasClicked (Point 100 60) (on_handle ''se'' ''A'') False False) ?e2 = ?e3"
    by (simp add: editor0_def handleCanvasClicked_def handleSelectClick_def on_handle_def
        new_controller_def store_AB_lookup truthy_def startResize_def A_bounds Let_def)
  have s4: "handle env0 (CanvasMouseMove (Point 140 90)) ?e3 = ?e4"
    by (simp add: editor0_def handleCanvasMouseMove_def doResize_def new_controller_def
        calc_se Let_def)
  have s5: "handle env0 (KeyDown ''Escape'' False False False False) ?e4 = ?e5"
    by (simp add: editor0_def handleKeyDown_def resetState_def resetConnectionState_def
        clearSelection_def new_controller_def Let_def)
  have s6: "handle env0 MouseUp ?e5 = ?e5"
    by (simp add: editor0_def handleMouseUp_def new_controller_def Let_def)
  have s7: "handle env0 (CanvasClicked (Point 350 30) (on_shape ''B'') False False) ?e5 = ?e7"
    by (simp add: editor0_def handleCanvasClicked_def handleSelectClick_def on_shape_def
        new_controller_def getShape_def update_shape_def Map_get_def store_AB_diagram
        selectShape_def clearSelection_def set_add_def startDrag_def Let_def)
  have t: "handle_all env0 escape_during_resize editor0 = ?e7"
    unfolding escape_during_resize_def handle_all.simps s1 s2 s3 s4 s5 s6 s7 ..
  have p: "handle_all env0 press_during_drag editor0
             = editor0\<lparr>ctl := ?resizing\<lparr>isDragging := True\<rparr>, selectedShapes := [10]\<rparr>"
    unfolding press_during_drag_def handle_all.simps s1
    by (simp add: editor0_def handleCanvasClicked_def handleSelectClick_def on_handle_def
        new_controller_def store_AB_lookup truthy_def startResize_def A_bounds Let_def)
  have w: "s_width (st_shapes store_AB 10) = 100"
    by (simp add: store_AB_heap shape_A_def new_Shape_def no_shape_data_def or_num_def)
  show ?thesis
    unfolding t p
    by (simp add: active_gestures_def new_controller_def editor0_def update_shape_def w
        new_CommandManager_def)
qed


end
